theory Spec2Isabelle
  imports Complex_Main "HOL-Library.AList"
begin

section \<open>Python values, exceptions and events\<close>

text \<open>
  An event is a Python dict from field names to values. The values are numbers, strings,
  \<^verbatim>\<open>None\<close>, \<^verbatim>\<open>bytes\<close> and \<^verbatim>\<open>datetime\<close> or \<^verbatim>\<open>date\<close> objects (a
  caller's dict may hold any of them: the type of an event is \<^verbatim>\<open>Dict[str, Any]\<close>);
  Python floats are idealised as reals. A dict keeps insertion order, so it is an
  association list with distinct keys; \<^verbatim>\<open>d.get(k, default)\<close> is \<open>dict_get\<close>.
\<close>

datatype pyval = PNum real | PStr string | PNone | PBytes string | PDatetime real

datatype pyerr =
  KeyError | TypeError | ValueError | AttributeError | ZeroDivisionError
  | StatisticsError | OverflowError

type_synonym event = "(string \<times> pyval) list"

definition dict_get :: "event \<Rightarrow> string \<Rightarrow> pyval \<Rightarrow> pyval" where
  "dict_get e k d = (case map_of e k of None \<Rightarrow> d | Some v \<Rightarrow> v)"

text \<open>
  Truth value of a Python object: zero, the empty string, None and empty bytes are false;
  a \<^verbatim>\<open>datetime\<close> object is true.
\<close>

fun truthy :: "pyval \<Rightarrow> bool" where
  "truthy (PNum x) = (x \<noteq> 0)"
| "truthy (PStr s) = (s \<noteq> [])"
| "truthy PNone = False"
| "truthy (PBytes b) = (b \<noteq> [])"
| "truthy (PDatetime d) = True"

text \<open>
  \<^verbatim>\<open>v > c\<close> and \<^verbatim>\<open>v < c\<close> for a float \<open>c\<close>: anything but a number on
  the left raises TypeError.
\<close>

fun py_gt :: "pyval \<Rightarrow> real \<Rightarrow> pyerr + bool" where
  "py_gt (PNum x) c = Inr (x > c)"
| "py_gt _ c = Inl TypeError"

fun py_lt :: "pyval \<Rightarrow> real \<Rightarrow> pyerr + bool" where
  "py_lt (PNum x) c = Inr (x < c)"
| "py_lt _ c = Inl TypeError"

section \<open>The state store (src/utils/state\_store.py)\<close>

text \<open>
  \<^verbatim>\<open>UserState\<close>: the deque of recent events (oldest first, \<^verbatim>\<open>maxlen=1000\<close>),
  the feature vector, and the two timestamps. \<^verbatim>\<open>time.time()\<close> is an explicit
  argument \<open>now\<close> of every method that reads the clock; the two default factories of
  one \<^verbatim>\<open>UserState()\<close> read it at the same instant.
\<close>

definition maxlen :: nat where
  "maxlen = 1000"

record user_state =
  recent_events :: "event list"
  feature_vector :: "(string \<times> real) list"
  last_updated :: real
  created_at :: real

definition UserState :: "real \<Rightarrow> user_state" where
  "UserState now =
     \<lparr>recent_events = [], feature_vector = [], last_updated = now, created_at = now\<rparr>"

text \<open>
  \<^verbatim>\<open>deque.append\<close> on a bounded deque: the item is added on the right and, when the
  deque is then longer than \<open>maxlen\<close>, one item is dropped on the left.
\<close>

definition deque_append :: "event list \<Rightarrow> event \<Rightarrow> event list" where
  "deque_append d e = (let d' = d @ [e] in if length d' > maxlen then tl d' else d')"

record 'k state_store =
  max_window_minutes :: int
  cleanup_interval :: int
  last_cleanup :: real
  store :: "('k \<times> user_state) list"

definition StateStore :: "real \<Rightarrow> int \<Rightarrow> int \<Rightarrow> 'k state_store" where
  "StateStore now mwm ci =
     \<lparr>max_window_minutes = mwm, cleanup_interval = ci, last_cleanup = now, store = []\<rparr>"

text \<open>
  \<^verbatim>\<open>get_user_state\<close>: get or create. The Python returns a reference into the store;
  the model returns the state and the store that holds it.
\<close>

definition get_user_state ::
  "real \<Rightarrow> 'k state_store \<Rightarrow> 'k \<Rightarrow> user_state \<times> 'k state_store" where
  "get_user_state now s user_id =
     (case map_of (store s) user_id of
        None \<Rightarrow> (UserState now, s\<lparr>store := store s @ [(user_id, UserState now)]\<rparr>)
      | Some st \<Rightarrow> (st, s))"

definition update_user_events ::
  "real \<Rightarrow> 'k state_store \<Rightarrow> 'k \<Rightarrow> event \<Rightarrow> 'k state_store" where
  "update_user_events now s user_id ev =
     (let (st, s1) = get_user_state now s user_id;
          st' = st\<lparr>recent_events := deque_append (recent_events st) ev, last_updated := now\<rparr>
      in s1\<lparr>store := AList.update user_id st' (store s1)\<rparr>)"

text \<open>\<^verbatim>\<open>dict.update\<close>: overwrite per key, new keys at the end.\<close>

definition dict_update :: "('a \<times> 'b) list \<Rightarrow> ('a \<times> 'b) list \<Rightarrow> ('a \<times> 'b) list" where
  "dict_update d new = fold (\<lambda>(k, v). AList.update k v) new d"

definition update_user_features ::
  "real \<Rightarrow> 'k state_store \<Rightarrow> 'k \<Rightarrow> (string \<times> real) list \<Rightarrow> 'k state_store" where
  "update_user_features now s user_id features =
     (let (st, s1) = get_user_state now s user_id;
          st' = st\<lparr>feature_vector := dict_update (feature_vector st) features,
                    last_updated := now\<rparr>
      in s1\<lparr>store := AList.update user_id st' (store s1)\<rparr>)"

text \<open>
  \<^verbatim>\<open>get_user_features\<close> goes through \<open>get_user_state\<close>, so it returns the copy of
  the feature vector together with the store, which has a fresh state for an id that
  was unknown.
\<close>

definition get_user_features ::
  "real \<Rightarrow> 'k state_store \<Rightarrow> 'k \<Rightarrow> (string \<times> real) list \<times> 'k state_store" where
  "get_user_features now s user_id =
     (let (st, s1) = get_user_state now s user_id in (feature_vector st, s1))"

text \<open>
  \<^verbatim>\<open>get_recent_events\<close>: \<^verbatim>\<open>window_minutes or self.max_window_minutes\<close> takes the
  store's window when the argument is None or 0. The filter loop compares each event's
  \<^verbatim>\<open>timestamp_unix\<close> (0 when the key is absent) with the cutoff and raises on the
  first event whose value is not a number. The method assigns nothing.
\<close>

definition event_ts :: "event \<Rightarrow> pyval" where
  "event_ts e = dict_get e ''timestamp_unix'' (PNum 0)"

fun filter_window :: "real \<Rightarrow> event list \<Rightarrow> pyerr + event list" where
  "filter_window cutoff [] = Inr []"
| "filter_window cutoff (e # es) =
     (case py_gt (event_ts e) cutoff of
        Inl err \<Rightarrow> Inl err
      | Inr b \<Rightarrow>
          (case filter_window cutoff es of
             Inl err \<Rightarrow> Inl err
           | Inr r \<Rightarrow> Inr (if b then e # r else r)))"

definition effective_window :: "'k state_store \<Rightarrow> int option \<Rightarrow> int" where
  "effective_window s window_minutes =
     (case window_minutes of
        None \<Rightarrow> max_window_minutes s
      | Some w \<Rightarrow> if w = 0 then max_window_minutes s else w)"

definition get_recent_events ::
  "real \<Rightarrow> 'k state_store \<Rightarrow> 'k \<Rightarrow> int option \<Rightarrow> pyerr + event list" where
  "get_recent_events now s user_id window_minutes =
     (case map_of (store s) user_id of
        None \<Rightarrow> Inr []
      | Some st \<Rightarrow>
          (let cutoff_time = now - real_of_int (effective_window s window_minutes * 60)
           in filter_window cutoff_time (recent_events st)))"

text \<open>
  \<^verbatim>\<open>clear_old_entries\<close>. The loop over the items either marks a user for removal
  (both timestamps before the cutoff and an empty deque, tested before any trimming) or
  pops expired events from the left of its deque. A front event whose
  \<^verbatim>\<open>timestamp_unix\<close> is not a number raises: the deques handled so far stay
  trimmed, nothing is deleted and \<open>last_cleanup\<close> keeps its value.
\<close>

fun trim_deque :: "real \<Rightarrow> event list \<Rightarrow> pyerr option \<times> event list" where
  "trim_deque cutoff [] = (None, [])"
| "trim_deque cutoff (e # es) =
     (case py_lt (event_ts e) cutoff of
        Inl err \<Rightarrow> (Some err, e # es)
      | Inr b \<Rightarrow> if b then trim_deque cutoff es else (None, e # es))"

definition removable :: "real \<Rightarrow> user_state \<Rightarrow> bool" where
  "removable cutoff st =
     (last_updated st < cutoff \<and> created_at st < cutoff \<and> recent_events st = [])"

fun sweep ::
  "real \<Rightarrow> ('k \<times> user_state) list \<Rightarrow> pyerr option \<times> 'k list \<times> ('k \<times> user_state) list" where
  "sweep cutoff [] = (None, [], [])"
| "sweep cutoff ((user_id, st) # rest) =
     (if removable cutoff st then
        (case sweep cutoff rest of
           (err, users_to_remove, rest') \<Rightarrow> (err, user_id # users_to_remove, (user_id, st) # rest'))
      else
        (case trim_deque cutoff (recent_events st) of
           (Some err, d) \<Rightarrow> (Some err, [], (user_id, st\<lparr>recent_events := d\<rparr>) # rest)
         | (None, d) \<Rightarrow>
             (case sweep cutoff rest of
                (err, users_to_remove, rest') \<Rightarrow>
                  (err, users_to_remove, (user_id, st\<lparr>recent_events := d\<rparr>) # rest'))))"

definition clear_old_entries :: "real \<Rightarrow> 'k state_store \<Rightarrow> (pyerr + int) \<times> 'k state_store" where
  "clear_old_entries now s =
     (let current_time = now;
          cutoff_time = current_time - real_of_int (max_window_minutes s * 60)
      in case sweep cutoff_time (store s) of
           (Some err, users_to_remove, items) \<Rightarrow> (Inl err, s\<lparr>store := items\<rparr>)
         | (None, users_to_remove, items) \<Rightarrow>
             (Inr (int (length users_to_remove)),
              s\<lparr>store := filter (\<lambda>(k, st). k \<notin> set users_to_remove) items,
                last_cleanup := current_time\<rparr>))"

record store_stats =
  total_users :: nat
  total_events :: nat
  stats_max_window_minutes :: int
  stats_last_cleanup :: real

definition get_stats :: "'k state_store \<Rightarrow> store_stats" where
  "get_stats s =
     \<lparr>total_users = length (store s),
      total_events = sum_list (map (\<lambda>(k, st). length (recent_events st)) (store s)),
      stats_max_window_minutes = max_window_minutes s,
      stats_last_cleanup = last_cleanup s\<rparr>"

definition should_cleanup :: "real \<Rightarrow> 'k state_store \<Rightarrow> bool" where
  "should_cleanup now s = (now - last_cleanup s > real_of_int (cleanup_interval s))"

section \<open>Time utilities (src/utils/time\_utils.py)\<close>

text \<open>
  The two calls into Python's \<^verbatim>\<open>datetime\<close> are parameters of the model:
  \<open>iso_timestamp lib s\<close> stands for \<^verbatim>\<open>datetime.fromisoformat(s).timestamp()\<close> and
  \<open>fromtimestamp lib t\<close> for the fields of \<^verbatim>\<open>datetime.fromtimestamp(t)\<close> in local
  time; each returns the exception that the library raises, if it raises one.
\<close>

record datetime_fields =
  dt_hour :: int
  dt_weekday :: int
  dt_month :: int
  dt_day :: int

record pylib =
  iso_timestamp :: "string \<Rightarrow> pyerr + real"
  fromtimestamp :: "real \<Rightarrow> pyerr + datetime_fields"

text \<open>\<^verbatim>\<open>s.replace('Z', '+00:00')\<close> replaces every \<open>Z\<close> of the string.\<close>

definition replace_Z :: "string \<Rightarrow> string" where
  "replace_Z s = concat (map (\<lambda>c. if c = CHR ''Z'' then ''+00:00'' else [c]) s)"

text \<open>
  \<^verbatim>\<open>parse_timestamp\<close> catches ValueError and AttributeError, nothing else. A number
  or None has no \<^verbatim>\<open>replace\<close> method: AttributeError, caught. \<^verbatim>\<open>bytes\<close>,
  \<^verbatim>\<open>datetime\<close> and \<^verbatim>\<open>date\<close> objects have one, and it raises TypeError on the
  arguments \<^verbatim>\<open>('Z', '+00:00')\<close>: not caught.
\<close>

fun parse_timestamp :: "pylib \<Rightarrow> real \<Rightarrow> pyval \<Rightarrow> pyerr + real" where
  "parse_timestamp lib now (PStr timestamp_str) =
     (case iso_timestamp lib (replace_Z timestamp_str) of
        Inr t \<Rightarrow> Inr t
      | Inl err \<Rightarrow> if err = ValueError \<or> err = AttributeError then Inr now else Inl err)"
| "parse_timestamp lib now (PNum x) = Inr now"
| "parse_timestamp lib now PNone = Inr now"
| "parse_timestamp lib now (PBytes b) = Inl TypeError"
| "parse_timestamp lib now (PDatetime d) = Inl TypeError"

record time_features =
  hour_of_day :: int
  day_of_week :: int
  is_weekend :: int
  is_business_hours :: int
  month :: int
  day_of_month :: int

definition get_time_features :: "pylib \<Rightarrow> real \<Rightarrow> pyerr + time_features" where
  "get_time_features lib timestamp =
     (case fromtimestamp lib timestamp of
        Inl err \<Rightarrow> Inl err
      | Inr dt \<Rightarrow>
          Inr \<lparr>hour_of_day = dt_hour dt,
               day_of_week = dt_weekday dt,
               is_weekend = (if dt_weekday dt \<ge> 5 then 1 else 0),
               is_business_hours = (if 9 \<le> dt_hour dt \<and> dt_hour dt \<le> 17 then 1 else 0),
               month = dt_month dt,
               day_of_month = dt_day dt\<rparr>)"

section \<open>The feature engine (src/streaming\_features.py)\<close>

text \<open>
  \<^verbatim>\<open>statistics.mean\<close> and \<^verbatim>\<open>statistics.stdev\<close> (the sample standard deviation)
  over reals. A value that is not a number raises TypeError, too few values raise
  StatisticsError.
\<close>

fun numbers :: "pyval list \<Rightarrow> pyerr + real list" where
  "numbers [] = Inr []"
| "numbers (PNum x # vs) = (case numbers vs of Inl err \<Rightarrow> Inl err | Inr xs \<Rightarrow> Inr (x # xs))"
| "numbers (v # vs) = Inl TypeError"

definition mean_of :: "real list \<Rightarrow> real" where
  "mean_of xs = sum_list xs / real (length xs)"

definition py_mean :: "pyval list \<Rightarrow> pyerr + real" where
  "py_mean data =
     (case numbers data of
        Inl err \<Rightarrow> Inl err
      | Inr xs \<Rightarrow> if length xs < 1 then Inl StatisticsError else Inr (mean_of xs))"

definition py_stdev :: "pyval list \<Rightarrow> pyerr + real" where
  "py_stdev data =
     (case numbers data of
        Inl err \<Rightarrow> Inl err
      | Inr xs \<Rightarrow>
          if length xs < 2 then Inl StatisticsError
          else Inr (sqrt (sum_list (map (\<lambda>x. (x - mean_of xs)\<^sup>2) xs) / real (length xs - 1))))"

text \<open>
  The expression \<^verbatim>\<open>abs(mean_amount) * 0.1 if mean_amount != 0 else 1.0\<close>, which
  \<^verbatim>\<open>_calculate_amount_features\<close> writes in each of its three fallback branches.
\<close>

definition default_std :: "real \<Rightarrow> real" where
  "default_std mean_amount = (if mean_amount \<noteq> 0 then \<bar>mean_amount\<bar> * 0.1 else 1.0)"

text \<open>The value of \<^verbatim>\<open>std_amount\<close> (lines 133 to 143).\<close>

definition std_amount_of :: "pyval list \<Rightarrow> real \<Rightarrow> pyerr + real" where
  "std_amount_of historical_amounts mean_amount =
     (if length historical_amounts = 1 then Inr (default_std mean_amount)
      else
        (case py_stdev historical_amounts of
           Inr sd \<Rightarrow> Inr (if sd = 0 then default_std mean_amount else sd)
         | Inl err \<Rightarrow>
             if err = StatisticsError then Inr (default_std mean_amount) else Inl err))"

definition calculate_amount_features :: "event list \<Rightarrow> pyerr + (string \<times> real) list" where
  "calculate_amount_features events =
     (let amounts = map (\<lambda>e. dict_get e ''amount'' (PNum 0)) events in
      if length amounts < 2 then Inr [(''amount_zscore'', 0), (''amount_volatility'', 0)]
      else
        let recent_amount = last amounts;
            historical_amounts = butlast amounts in
        if historical_amounts = [] then Inr [(''amount_zscore'', 0), (''amount_volatility'', 0)]
        else
          (case py_mean historical_amounts of
             Inl err \<Rightarrow> Inl err
           | Inr mean_amount \<Rightarrow>
               (case std_amount_of historical_amounts mean_amount of
                  Inl err \<Rightarrow> Inl err
                | Inr std_amount \<Rightarrow>
                    (case recent_amount of
                       PNum r \<Rightarrow>
                         if std_amount = 0 then Inl ZeroDivisionError
                         else
                           Inr [(''amount_zscore'', (r - mean_amount) / std_amount),
                                (''amount_volatility'',
                                   if mean_amount > 0 then std_amount / mean_amount else 0)]
                     | PStr x \<Rightarrow> Inl TypeError
                     | PNone \<Rightarrow> Inl TypeError
                     | PBytes x \<Rightarrow> Inl TypeError
                     | PDatetime x \<Rightarrow> Inl TypeError))))"

text \<open>
  The \<^verbatim>\<open>defaultdict(int)\<close> counting loops: the count stored for a key is the number of
  its occurrences, and the largest of the counts is \<^verbatim>\<open>max(counts.values())\<close>.
\<close>

definition max_count :: "'a list \<Rightarrow> nat" where
  "max_count xs = fold max (map (count_list xs) xs) 0"

definition calculate_location_features :: "event list \<Rightarrow> (string \<times> real) list" where
  "calculate_location_features events =
     (let locations = map (\<lambda>e. dict_get e ''location'' (PStr []))
                        (filter (\<lambda>e. truthy (dict_get e ''location'' PNone)) events);
          recent_location =
            (if events \<noteq> [] then dict_get (last events) ''location'' (PStr []) else PStr [])
      in
      if locations = [] then [(''location_anomaly'', 0), (''location_consistency'', 1)]
      else
        let total_locations = length locations;
            recent_count = count_list locations recent_location;
            anomaly = (if real recent_count / real total_locations \<le> 0.1 \<and> total_locations > 5
                       then 1 else 0);
            primary_location_count = max_count locations;
            consistency = (if total_locations > 0
                           then real primary_location_count / real total_locations else 1)
        in [(''location_anomaly'', anomaly), (''location_consistency'', consistency)])"

text \<open>The loop of \<^verbatim>\<open>_calculate_time_features\<close> that fills \<open>hours\<close> and \<open>weekdays\<close>.\<close>

fun collect_times :: "pylib \<Rightarrow> event list \<Rightarrow> pyerr + (int list \<times> int list)" where
  "collect_times lib [] = Inr ([], [])"
| "collect_times lib (e # es) =
     (case event_ts e of
        PNum timestamp \<Rightarrow>
          if timestamp > 0 then
            (case get_time_features lib timestamp of
               Inl err \<Rightarrow> Inl err
             | Inr tf \<Rightarrow>
                 (case collect_times lib es of
                    Inl err \<Rightarrow> Inl err
                  | Inr (hours, weekdays) \<Rightarrow>
                      Inr (hour_of_day tf # hours, day_of_week tf # weekdays)))
          else collect_times lib es
      | PStr x \<Rightarrow> Inl TypeError
      | PNone \<Rightarrow> Inl TypeError
      | PBytes x \<Rightarrow> Inl TypeError
      | PDatetime x \<Rightarrow> Inl TypeError)"

definition calculate_time_features :: "pylib \<Rightarrow> event list \<Rightarrow> pyerr + (string \<times> real) list" where
  "calculate_time_features lib events =
     (if events = [] then Inr [(''time_pattern_score'', 0)]
      else
        (case collect_times lib events of
           Inl err \<Rightarrow> Inl err
         | Inr (hours, weekdays) \<Rightarrow>
             if hours = [] then Inr [(''time_pattern_score'', 0)]
             else
               let recent_hour = last hours;
                   recent_weekday = (if weekdays \<noteq> [] then last weekdays else 0);
                   historical_hours = (if length hours > 1 then butlast hours else []);
                   historical_weekdays = (if length hours > 1 then butlast weekdays else []);
                   total_historical = int (length hours) - 1
               in
               if total_historical > 0 then
                 let recent_hour_freq =
                       real (count_list historical_hours recent_hour) / real_of_int total_historical;
                     recent_weekday_freq =
                       real (count_list historical_weekdays recent_weekday)
                         / real_of_int total_historical
                 in Inr [(''time_pattern_score'', 1 - (recent_hour_freq + recent_weekday_freq) / 2)]
               else Inr [(''time_pattern_score'', 0)]))"

definition calculate_behavioral_features :: "event list \<Rightarrow> (string \<times> real) list" where
  "calculate_behavioral_features events =
     (let merchants = map (\<lambda>e. dict_get e ''merchant'' (PStr []))
                        (filter (\<lambda>e. truthy (dict_get e ''merchant'' PNone)) events);
          payment_methods = map (\<lambda>e. dict_get e ''payment_method'' (PStr []))
                        (filter (\<lambda>e. truthy (dict_get e ''payment_method'' PNone)) events);
          unique_merchants = (if merchants \<noteq> [] then length (remdups merchants) else 0);
          total_transactions = length events;
          merchant_diversity =
            (if total_transactions > 0 then real unique_merchants / real total_transactions else 0);
          payment_consistency =
            (if payment_methods \<noteq> []
             then real (max_count payment_methods) / real (length payment_methods) else 1)
      in [(''merchant_diversity'', merchant_diversity),
          (''payment_method_consistency'', payment_consistency)])"

text \<open>
  \<^verbatim>\<open>_calculate_features\<close>, with the clock readings of its three windowed reads. It
  only reads the store.
\<close>

definition calculate_features ::
  "pylib \<Rightarrow> real \<times> real \<times> real \<Rightarrow> 'k state_store \<Rightarrow> 'k \<Rightarrow> pyerr + (string \<times> real) list" where
  "calculate_features lib clock s user_id =
     (case clock of (t1, t2, t3) \<Rightarrow>
      (case get_recent_events t1 s user_id (Some 60) of
         Inl err \<Rightarrow> Inl err
       | Inr recent_events_1h \<Rightarrow>
      (case get_recent_events t2 s user_id (Some 1440) of
         Inl err \<Rightarrow> Inl err
       | Inr recent_events_24h \<Rightarrow>
      (case get_recent_events t3 s user_id (Some 10080) of
         Inl err \<Rightarrow> Inl err
       | Inr recent_events_1w \<Rightarrow>
      (let features = [(''transaction_velocity_1h'', real (length recent_events_1h))] in
       (case (if recent_events_24h \<noteq> [] then calculate_amount_features recent_events_24h
              else Inr []) of
          Inl err \<Rightarrow> Inl err
        | Inr amount_features \<Rightarrow>
       (let features = dict_update features amount_features;
            features = (if recent_events_1w \<noteq> []
                        then dict_update features (calculate_location_features recent_events_1w)
                        else features) in
        (case (if recent_events_1w \<noteq> [] then calculate_time_features lib recent_events_1w
               else Inr []) of
           Inl err \<Rightarrow> Inl err
         | Inr time_feats \<Rightarrow>
        (let features = dict_update features time_feats;
             features = (if recent_events_1w \<noteq> []
                         then dict_update features (calculate_behavioral_features recent_events_1w)
                         else features)
         in Inr features)))))))))"

text \<open>
  \<^verbatim>\<open>process_event\<close>. \<open>clk i\<close> is the \<open>i\<close>-th reading of \<^verbatim>\<open>time.time()\<close>: 0 in
  \<open>parse_timestamp\<close>, 1 in the append, 2 to 4 in the windowed reads, 5 in the feature
  update, 6 in \<open>should_cleanup\<close>, 7 in \<open>clear_old_entries\<close>. The body of the
  \<^verbatim>\<open>try\<close> returns the exception it raised, if any, and the store as it is then; the
  \<^verbatim>\<open>except Exception\<close> turns every exception into the result False.
\<close>

definition with_timestamp_unix :: "pylib \<Rightarrow> real \<Rightarrow> event \<Rightarrow> pyerr + event" where
  "with_timestamp_unix lib now event =
     (case map_of event ''timestamp_unix'' of
        Some v \<Rightarrow> Inr event
      | None \<Rightarrow>
          (case map_of event ''timestamp'' of
             None \<Rightarrow> Inr event
           | Some ts \<Rightarrow>
               (case parse_timestamp lib now ts of
                  Inl err \<Rightarrow> Inl err
                | Inr t \<Rightarrow> Inr (AList.update ''timestamp_unix'' (PNum t) event))))"

definition process_event_body ::
  "pylib \<Rightarrow> (nat \<Rightarrow> real) \<Rightarrow> pyval state_store \<Rightarrow> event \<Rightarrow> (pyerr + unit) \<times> pyval state_store" where
  "process_event_body lib clk s event0 =
     (case with_timestamp_unix lib (clk 0) event0 of
        Inl err \<Rightarrow> (Inl err, s)
      | Inr event \<Rightarrow>
          (case map_of event ''user_id'' of
             None \<Rightarrow> (Inl KeyError, s)
           | Some user_id \<Rightarrow>
               (let s1 = update_user_events (clk 1) s user_id event in
                (case calculate_features lib (clk 2, clk 3, clk 4) s1 user_id of
                   Inl err \<Rightarrow> (Inl err, s1)
                 | Inr features \<Rightarrow>
                     (let s2 = update_user_features (clk 5) s1 user_id features in
                      if should_cleanup (clk 6) s2 then
                        (case clear_old_entries (clk 7) s2 of
                           (Inl err, s3) \<Rightarrow> (Inl err, s3)
                         | (Inr cleared, s3) \<Rightarrow> (Inr (), s3))
                      else (Inr (), s2))))))"

definition process_event ::
  "pylib \<Rightarrow> (nat \<Rightarrow> real) \<Rightarrow> pyval state_store \<Rightarrow> event \<Rightarrow> bool \<times> pyval state_store" where
  "process_event lib clk s event =
     (case process_event_body lib clk s event of
        (Inl err, s') \<Rightarrow> (False, s')
      | (Inr u, s') \<Rightarrow> (True, s'))"

text \<open>\<^verbatim>\<open>get_features\<close>: the stored vector, with the default of every missing key added.\<close>

definition default_features :: "(string \<times> real) list" where
  "default_features =
     [(''transaction_velocity_1h'', 0.0),
      (''amount_zscore'', 0.0),
      (''location_anomaly'', 0),
      (''time_pattern_score'', 0.0),
      (''merchant_diversity'', 0.0),
      (''payment_method_consistency'', 1.0),
      (''amount_volatility'', 0.0),
      (''location_consistency'', 1.0)]"

definition fill_defaults :: "(string \<times> real) list \<Rightarrow> (string \<times> real) list" where
  "fill_defaults features =
     fold (\<lambda>(key, default_value) features.
             if map_of features key = None then features @ [(key, default_value)] else features)
       default_features features"

definition get_features ::
  "real \<Rightarrow> 'k state_store \<Rightarrow> 'k \<Rightarrow> (string \<times> real) list \<times> 'k state_store" where
  "get_features now s user_id =
     (let (features, s1) = get_user_features now s user_id in (fill_defaults features, s1))"

section \<open>Notions used to state the properties\<close>

text \<open>
  The epoch the store reads from an event (\<^verbatim>\<open>event.get('timestamp_unix', 0)\<close>) when
  it is a number, whether it is one, and the test of the trimming loop of
  \<open>clear_old_entries\<close>: the front event is popped when its epoch is before the cutoff.
\<close>

definition numeric_ts :: "event \<Rightarrow> bool" where
  "numeric_ts e = (case event_ts e of PNum x \<Rightarrow> True | _ \<Rightarrow> False)"

definition epoch :: "event \<Rightarrow> real" where
  "epoch e = (case event_ts e of PNum x \<Rightarrow> x | _ \<Rightarrow> 0)"

definition expired :: "real \<Rightarrow> event \<Rightarrow> bool" where
  "expired cutoff e = (py_lt (event_ts e) cutoff = Inr True)"

text \<open>What one sweep of \<open>clear_old_entries\<close> does to a state it keeps.\<close>

definition reap_state :: "real \<Rightarrow> user_state \<Rightarrow> user_state" where
  "reap_state c st =
     (if removable c st then st
      else st\<lparr>recent_events := dropWhile (expired c) (recent_events st)\<rparr>)"

text \<open>
  The history the store holds for an id (empty for an unknown id), a run of appends
  \<^verbatim>\<open>update_user_events\<close> with the clock reading of each, the events such a run
  appends for one id, and the last \<open>n\<close> elements of a list.
\<close>

definition history :: "'k state_store \<Rightarrow> 'k \<Rightarrow> event list" where
  "history s uid = (case map_of (store s) uid of None \<Rightarrow> [] | Some st \<Rightarrow> recent_events st)"

fun appends :: "'k state_store \<Rightarrow> (real \<times> 'k \<times> event) list \<Rightarrow> 'k state_store" where
  "appends s [] = s"
| "appends s ((now, uid, e) # xs) = appends (update_user_events now s uid e) xs"

definition events_for :: "'k \<Rightarrow> (real \<times> 'k \<times> event) list \<Rightarrow> event list" where
  "events_for uid xs = map (\<lambda>(t, u, e). e) (filter (\<lambda>(t, u, e). u = uid) xs)"

definition lastn :: "nat \<Rightarrow> 'a list \<Rightarrow> 'a list" where
  "lastn n l = drop (length l - n) l"

text \<open>
  A store whose stored events all carry a numeric \<^verbatim>\<open>timestamp_unix\<close> or none, as
  the events of the data model do.
\<close>

definition numeric_store :: "'k state_store \<Rightarrow> bool" where
  "numeric_store s = (\<forall>(k, st)\<in>set (store s). \<forall>e\<in>set (recent_events st). numeric_ts e)"

section \<open>Example data\<close>

definition ev :: "string \<Rightarrow> real \<Rightarrow> event" where
  "ev uid t = [(''user_id'', PStr uid), (''timestamp_unix'', PNum t)]"

text \<open>
  Three users at reap time 10000 with a window of 60 minutes (cutoff 6400): one never
  had an event, one has a single expired event, one has an expired and a recent event.
\<close>

definition reap_example :: "string state_store" where
  "reap_example =
     \<lparr>max_window_minutes = 60, cleanup_interval = 300, last_cleanup = 0,
      store =
        [(''idle'', \<lparr>recent_events = [], feature_vector = [], last_updated = 100, created_at = 100\<rparr>),
         (''stale'', \<lparr>recent_events = [ev ''stale'' 100], feature_vector = [],
                     last_updated = 100, created_at = 100\<rparr>),
         (''busy'', \<lparr>recent_events = [ev ''busy'' 100, ev ''busy'' 9000], feature_vector = [],
                    last_updated = 9000, created_at = 100\<rparr>)]\<rparr>"

text \<open>
  A user with four stored events at time 1700000000, the second without a
  \<^verbatim>\<open>timestamp_unix\<close> key.
\<close>

definition ev_no_ts :: "string \<Rightarrow> event" where
  "ev_no_ts uid = [(''user_id'', PStr uid)]"

definition window_example :: "string state_store" where
  "window_example =
     \<lparr>max_window_minutes = 60, cleanup_interval = 300, last_cleanup = 1700000000,
      store =
        [(''u'', \<lparr>recent_events =
                    [ev ''u'' 1699990000, ev_no_ts ''u'', ev ''u'' 1699999000,
                     ev ''u'' 1699999990],
                  feature_vector = [], last_updated = 1699999990, created_at = 1699990000\<rparr>)]\<rparr>"

text \<open>
  An event that carries only an amount; a library that parses one ISO string and whose
  \<^verbatim>\<open>fromtimestamp\<close> raises ValueError from the year 10000 on, as Python's does; a
  clock that advances by one second per reading; an event dated beyond the year 9999 and
  an event with an ISO timestamp.
\<close>

definition amt :: "real \<Rightarrow> event" where
  "amt a = [(''user_id'', PStr ''u''), (''amount'', PNum a)]"

definition example_lib :: pylib where
  "example_lib =
     \<lparr>iso_timestamp =
        (\<lambda>s. if s = ''2024-01-01T00:00:00+00:00'' then Inr 1704067200 else Inl ValueError),
      fromtimestamp =
        (\<lambda>t. if t < 253402300800
             then Inr \<lparr>dt_hour = 12, dt_weekday = 0, dt_month = 1, dt_day = 1\<rparr>
             else Inl ValueError)\<rparr>"

definition example_clock :: "nat \<Rightarrow> real" where
  "example_clock i = 1700000000 + real i"

definition far_event :: event where
  "far_event = [(''user_id'', PStr ''u''), (''transaction_id'', PStr ''t1''),
                (''amount'', PNum 10), (''timestamp_unix'', PNum 300000000000)]"

definition iso_event :: event where
  "iso_event = [(''user_id'', PStr ''u''), (''transaction_id'', PStr ''t2''),
                (''amount'', PNum 10), (''timestamp'', PStr ''2024-01-01T00:00:00Z'')]"

text \<open>
  An event whose \<^verbatim>\<open>timestamp_unix\<close> is a string, the store that a new store becomes
  when \<open>process_event\<close> is given that event, a clock 1000 seconds later, and an event
  whose timestamp is a \<^verbatim>\<open>bytes\<close> object.
\<close>

definition bad_event :: event where
  "bad_event = [(''user_id'', PStr ''v''), (''transaction_id'', PStr ''t0''),
                (''amount'', PNum 10), (''timestamp_unix'', PStr ''soon'')]"

definition late_clock :: "nat \<Rightarrow> real" where
  "late_clock i = 1700001000 + real i"

definition poisoned_store :: "pyval state_store" where
  "poisoned_store =
     \<lparr>max_window_minutes = 60, cleanup_interval = 300, last_cleanup = 1700000000,
      store = [(PStr ''v'', \<lparr>recent_events = [bad_event], feature_vector = [],
                  last_updated = 1700000001, created_at = 1700000001\<rparr>)]\<rparr>"

definition bytes_event :: event where
  "bytes_event = [(''user_id'', PStr ''u''), (''amount'', PNum 10),
                  (''timestamp'', PBytes ''2024-01-01T00:00:00Z'')]"

section \<open>Lemmas about the store\<close>

lemma py_gt_numeric: "numeric_ts e \<Longrightarrow> py_gt (event_ts e) c = Inr (epoch e > c)"
  by (simp add: numeric_ts_def epoch_def split: pyval.splits)

lemma py_gt_Inr: "py_gt (event_ts e) c = Inr b \<Longrightarrow> numeric_ts e \<and> b = (epoch e > c)"
  by (auto simp add: numeric_ts_def epoch_def split: pyval.splits)

lemma filter_window_numeric:
  "\<forall>e\<in>set es. numeric_ts e \<Longrightarrow> filter_window c es = Inr (filter (\<lambda>e. epoch e > c) es)"
  by (induction es) (simp_all add: py_gt_numeric)

lemma filter_window_Inr:
  "filter_window c es = Inr r \<Longrightarrow> r = filter (\<lambda>e. epoch e > c) es \<and> (\<forall>e\<in>set es. numeric_ts e)"
proof (induction es arbitrary: r)
  case Nil
  then show ?case by simp
next
  case (Cons e es)
  from Cons.prems obtain b r0 where b: "py_gt (event_ts e) c = Inr b"
    and r0: "filter_window c es = Inr r0" and r: "r = (if b then e # r0 else r0)"
    by (auto split: sum.splits)
  from py_gt_Inr[OF b] Cons.IH[OF r0] r show ?case by simp
qed

lemma trim_deque_snd: "snd (trim_deque c d) = dropWhile (expired c) d"
  by (induction d) (auto simp: expired_def split: sum.splits)

lemma sweep_None:
  "sweep c items = (None, rm, items') \<Longrightarrow>
     rm = map fst (filter (\<lambda>(k, st). removable c st) items) \<and>
     items' = map (\<lambda>(k, st). if removable c st then (k, st)
                 else (k, st\<lparr>recent_events := dropWhile (expired c) (recent_events st)\<rparr>)) items"
proof (induction items arbitrary: rm items')
  case Nil
  then show ?case by simp
next
  case (Cons a items)
  obtain k st where a: "a = (k, st)" by (cases a)
  show ?case
  proof (cases "removable c st")
    case True
    with Cons.prems a obtain rm0 it0 where s0: "sweep c items = (None, rm0, it0)"
      and "rm = k # rm0" "items' = (k, st) # it0"
      by (auto split: prod.splits)
    with Cons.IH[OF s0] True a show ?thesis by simp
  next
    case False
    with Cons.prems a obtain d rm0 it0 where t: "trim_deque c (recent_events st) = (None, d)"
      and s0: "sweep c items = (None, rm0, it0)"
      and "rm = rm0" "items' = (k, st\<lparr>recent_events := d\<rparr>) # it0"
      by (auto split: prod.splits option.splits)
    moreover from t have "d = dropWhile (expired c) (recent_events st)"
      using trim_deque_snd[of c "recent_events st"] by simp
    ultimately show ?thesis using Cons.IH[OF s0] False a by simp
  qed
qed

lemma map_of_filter_key:
  "map_of (filter (\<lambda>(k, v). P k) xs) k = (if P k then map_of xs k else None)"
  by (induction xs) auto

lemma map_of_map_val:
  "map_of (map (\<lambda>(k, v). (k, f v)) xs) k = map_option f (map_of xs k)"
  by (induction xs) auto

lemma reap_item:
  "(\<lambda>(k, st). if removable c st then (k, st)
        else (k, st\<lparr>recent_events := dropWhile (expired c) (recent_events st)\<rparr>))
   = (\<lambda>(k, st). (k, reap_state c st))"
  by (rule ext) (simp add: reap_state_def split: prod.splits)

lemma sweep_None':
  assumes "sweep c items = (None, rm, items')"
  shows "rm = map fst (filter (\<lambda>(k, st). removable c st) items)"
    and "items' = map (\<lambda>(k, st). (k, reap_state c st)) items"
proof -
  from sweep_None[OF assms] show "rm = map fst (filter (\<lambda>(k, st). removable c st) items)"
    by (rule conjunct1)
  from sweep_None[OF assms] show "items' = map (\<lambda>(k, st). (k, reap_state c st)) items"
    unfolding reap_item by (rule conjunct2)
qed

lemma removed_keys:
  assumes "distinct (map fst items)" and "map_of items k = Some st"
  shows "k \<in> set (map fst (filter (\<lambda>(k, st). removable c st) items)) \<longleftrightarrow> removable c st"
proof
  have kst: "(k, st) \<in> set items"
    using assms(2) by (rule map_of_SomeD)
  {
    assume "k \<in> set (map fst (filter (\<lambda>(k, st). removable c st) items))"
    then obtain p where p: "p \<in> set items" "fst p = k" "removable c (snd p)"
      by (auto simp: case_prod_beta)
    then have "(k, snd p) \<in> set items" by (metis prod.collapse)
    from eq_key_imp_eq_value[OF assms(1) this kst] p(3)
    show "removable c st" by simp
  }
  {
    assume "removable c st"
    with kst have "(k, st) \<in> set (filter (\<lambda>(k, st). removable c st) items)"
      by simp
    then have "fst (k, st) \<in> fst ` set (filter (\<lambda>(k, st). removable c st) items)"
      by (rule imageI)
    then show "k \<in> set (map fst (filter (\<lambda>(k, st). removable c st) items))"
      by simp
  }
qed

lemma clear_old_entries_Inr:
  assumes "clear_old_entries now s = (Inr n, s')"
    and "cutoff = now - real_of_int (max_window_minutes s * 60)"
  shows "\<exists>rm items. sweep cutoff (store s) = (None, rm, items) \<and> n = int (length rm) \<and>
     s' = s\<lparr>store := filter (\<lambda>(k, st). k \<notin> set rm) items, last_cleanup := now\<rparr>"
proof -
  obtain err rm items where sw: "sweep cutoff (store s) = (err, rm, items)"
    by (cases "sweep cutoff (store s)") auto
  show ?thesis
  proof (cases err)
    case None
    with sw assms show ?thesis by (simp add: clear_old_entries_def)
  next
    case (Some e)
    with sw assms show ?thesis by (simp add: clear_old_entries_def)
  qed
qed

lemma clear_old_entries_lookup:
  assumes "distinct (map fst (store s))"
    and "clear_old_entries now s = (Inr n, s')"
    and "map_of (store s) uid = Some st"
    and "cutoff = now - real_of_int (max_window_minutes s * 60)"
  shows "map_of (store s') uid = (if removable cutoff st then None else Some (reap_state cutoff st))"
proof -
  from clear_old_entries_Inr[OF assms(2,4)]
  obtain rm items where sw: "sweep cutoff (store s) = (None, rm, items)"
    and s': "s' = s\<lparr>store := filter (\<lambda>(k, st). k \<notin> set rm) items, last_cleanup := now\<rparr>"
    by blast
  note rm = sweep_None'(1)[OF sw] and items = sweep_None'(2)[OF sw]
  have mem: "uid \<in> set rm \<longleftrightarrow> removable cutoff st"
    unfolding rm using removed_keys[OF assms(1,3)] .
  have "map_of (store s') uid = map_of (filter (\<lambda>(k, st). k \<notin> set rm) items) uid"
    by (simp add: s')
  also have "\<dots> = (if uid \<notin> set rm then map_of items uid else None)"
    by (rule map_of_filter_key)
  also have "map_of items uid = Some (reap_state cutoff st)"
    unfolding items by (simp add: map_of_map_val assms(3))
  finally show ?thesis
    using mem by simp
qed

lemma filter_window_member:
  "filter_window c es = Inr r \<Longrightarrow> e \<in> set r \<Longrightarrow> py_gt (event_ts e) c = Inr True"
proof (induction es arbitrary: r)
  case Nil
  then show ?case by simp
next
  case (Cons a es)
  from Cons.prems(1) obtain b r0 where b: "py_gt (event_ts a) c = Inr b"
    and r0: "filter_window c es = Inr r0" and r: "r = (if b then a # r0 else r0)"
    by (auto split: sum.splits)
  show ?case
  proof (cases "e \<in> set r0")
    case True
    from Cons.IH[OF r0 True] show ?thesis .
  next
    case False
    with Cons.prems(2) r have "b" "e = a" by (auto split: if_splits)
    with b show ?thesis by simp
  qed
qed

lemma dropWhile_reach:
  "\<forall>x\<in>set pre. P x \<Longrightarrow> P e \<Longrightarrow> dropWhile P (pre @ e # post) = dropWhile P post"
  by (induction pre) auto

lemma window_example_reap:
  "clear_old_entries 1700000000 window_example =
     (Inr 0,
      window_example\<lparr>store :=
        [(''u'', \<lparr>recent_events = [ev ''u'' 1699999000, ev ''u'' 1699999990],
                  feature_vector = [], last_updated = 1699999990, created_at = 1699990000\<rparr>)],
        last_cleanup := 1700000000\<rparr>)"
  by (simp add: window_example_def ev_def ev_no_ts_def clear_old_entries_def removable_def
      event_ts_def dict_get_def)

lemma deque_append_lastn:
  assumes "length d \<le> maxlen"
  shows "deque_append d e = lastn maxlen (d @ [e])"
proof (cases "length d < maxlen")
  case True
  then have "length (d @ [e]) - maxlen = 0" by simp
  then have "lastn maxlen (d @ [e]) = d @ [e]" unfolding lastn_def by simp
  moreover from True have "deque_append d e = d @ [e]"
    by (simp add: deque_append_def Let_def)
  ultimately show ?thesis by simp
next
  case False
  with assms have len: "length d = maxlen" by simp
  then have "length (d @ [e]) - maxlen = Suc 0" by simp
  then have "lastn maxlen (d @ [e]) = drop (Suc 0) (d @ [e])" unfolding lastn_def by simp
  also have "\<dots> = tl (d @ [e])" by (simp only: drop_Suc drop_0)
  finally have "lastn maxlen (d @ [e]) = tl (d @ [e])" .
  moreover from len have "deque_append d e = tl (d @ [e])"
    by (simp add: deque_append_def Let_def)
  ultimately show ?thesis by simp
qed

lemma lastn_append: "lastn n (lastn n l @ ys) = lastn n (l @ ys)"
proof (cases "length l \<le> n")
  case True
  then show ?thesis by (simp add: lastn_def)
next
  case False
  define k where "k = length l - n"
  from False have kl: "k \<le> length l" and ln: "length l = k + n"
    by (simp_all add: k_def)
  have a: "lastn n l = drop k l" by (simp add: lastn_def k_def)
  have b: "drop k l @ ys = drop k (l @ ys)" using kl by simp
  have "length (drop k (l @ ys)) - n = length ys" using ln by simp
  then have "lastn n (drop k (l @ ys)) = drop (length ys) (drop k (l @ ys))"
    unfolding lastn_def by (simp only:)
  also have "\<dots> = drop (length ys + k) (l @ ys)"
    by (rule drop_drop)
  finally have lhs: "lastn n (lastn n l @ ys) = drop (length ys + k) (l @ ys)"
    by (simp only: a b)
  have "length (l @ ys) - n = length ys + k" using ln by simp
  then have "lastn n (l @ ys) = drop (length ys + k) (l @ ys)"
    unfolding lastn_def by simp
  with lhs show ?thesis by simp
qed

lemma length_lastn: "length (lastn n l) \<le> n"
  by (simp add: lastn_def)

lemma history_update_user_events:
  "history (update_user_events now s uid e) uid' =
     (if uid' = uid then deque_append (history s uid) e else history s uid')"
  by (cases "map_of (store s) uid")
     (simp_all add: history_def update_user_events_def get_user_state_def update_conv'
        UserState_def map_add_def split: option.splits)

lemma history_appends:
  "length (history s uid) \<le> maxlen \<Longrightarrow>
   history (appends s xs) uid = lastn maxlen (history s uid @ events_for uid xs)"
proof (induction xs arbitrary: s)
  case Nil
  then show ?case by (simp add: events_for_def lastn_def)
next
  case (Cons x xs)
  obtain t u e where x: "x = (t, u, e)" by (cases x)
  let ?s = "update_user_events t s u e"
  show ?case
  proof (cases "u = uid")
    case True
    have h: "history ?s uid = lastn maxlen (history s uid @ [e])"
      using True Cons.prems by (simp add: history_update_user_events deque_append_lastn)
    then have "length (history ?s uid) \<le> maxlen" by (simp add: length_lastn)
    from Cons.IH[OF this] have "history (appends ?s xs) uid
        = lastn maxlen (lastn maxlen (history s uid @ [e]) @ events_for uid xs)"
      by (simp add: h)
    also have "\<dots> = lastn maxlen ((history s uid @ [e]) @ events_for uid xs)"
      by (rule lastn_append)
    finally show ?thesis using True x by (simp add: events_for_def)
  next
    case False
    then have h: "history ?s uid = history s uid"
      by (simp add: history_update_user_events)
    with Cons.prems have "length (history ?s uid) \<le> maxlen" by simp
    from Cons.IH[OF this] show ?thesis using False x h by (simp add: events_for_def)
  qed
qed

lemma history_StateStore: "history (StateStore t0 mwm ci) uid = []"
  by (simp add: history_def StateStore_def)

lemma get_recent_events_length:
  "get_recent_events now s uid w = Inr r \<Longrightarrow> length r \<le> length (history s uid)"
proof (cases "map_of (store s) uid")
  case None
  assume "get_recent_events now s uid w = Inr r"
  with None show ?thesis by (simp add: get_recent_events_def)
next
  case (Some st)
  assume "get_recent_events now s uid w = Inr r"
  with Some have "filter_window (now - real_of_int (effective_window s w * 60)) (recent_events st) = Inr r"
    by (simp add: get_recent_events_def)
  from filter_window_Inr[OF this] Some show ?thesis by (simp add: history_def)
qed

lemma get_user_state_known:
  "map_of (store s) uid = Some st \<Longrightarrow> get_user_state now s uid = (st, s)"
  by (simp add: get_user_state_def)

lemma get_user_state_unknown:
  "map_of (store s) uid = None \<Longrightarrow>
   get_user_state now s uid = (UserState now, s\<lparr>store := store s @ [(uid, UserState now)]\<rparr>)"
  by (simp add: get_user_state_def)

lemma map_of_get_user_state:
  "map_of (store (snd (get_user_state now s uid))) uid' =
     (if uid' = uid \<and> map_of (store s) uid = None then Some (UserState now)
      else map_of (store s) uid')"
  by (cases "map_of (store s) uid")
     (auto simp: get_user_state_def map_add_def split: option.splits)

lemma fst_get_features:
  "fst (get_features now s uid) =
     fill_defaults (case map_of (store s) uid of None \<Rightarrow> [] | Some st \<Rightarrow> feature_vector st)"
  by (cases "map_of (store s) uid")
     (simp_all add: get_features_def get_user_features_def get_user_state_def UserState_def)

lemma snd_get_features: "snd (get_features now s uid) = snd (get_user_state now s uid)"
  by (simp add: get_features_def get_user_features_def split: prod.splits)

lemma fill_defaults_empty: "fill_defaults [] = default_features"
  by (simp add: fill_defaults_def default_features_def)

lemma fold_fill_keys:
  "fst ` set (fold (\<lambda>(key, default_value) features.
             if map_of features key = None then features @ [(key, default_value)] else features)
       ds fs) = fst ` set fs \<union> fst ` set ds"
proof (induction ds arbitrary: fs)
  case Nil
  then show ?case by simp
next
  case (Cons d ds)
  obtain k v where d: "d = (k, v)" by (cases d)
  show ?case
  proof (cases "map_of fs k")
    case None
    then show ?thesis using Cons.IH[of "fs @ [(k, v)]"] d by auto
  next
    case (Some a)
    then have "k \<in> fst ` set fs" by (meson domI domIff map_of_eq_None_iff)
    then show ?thesis using Cons.IH[of fs] d Some by auto
  qed
qed

lemma fill_defaults_keys: "fst ` set (fill_defaults fs) = fst ` set fs \<union> fst ` set default_features"
  unfolding fill_defaults_def by (rule fold_fill_keys)

text \<open>The keys of the store stay distinct, as those of a dict are.\<close>

lemma distinct_get_user_state:
  "distinct (map fst (store s)) \<Longrightarrow> distinct (map fst (store (snd (get_user_state now s uid))))"
proof (cases "map_of (store s) uid")
  case None
  assume d: "distinct (map fst (store s))"
  from None have "uid \<notin> fst ` set (store s)" by (simp add: map_of_eq_None_iff)
  with d show ?thesis by (simp add: get_user_state_unknown[OF None])
next
  case (Some st)
  assume "distinct (map fst (store s))"
  then show ?thesis by (simp add: get_user_state_known[OF Some])
qed

lemma distinct_update_user_events:
  "distinct (map fst (store s)) \<Longrightarrow> distinct (map fst (store (update_user_events now s uid e)))"
  using distinct_get_user_state[of s now uid]
  by (cases "get_user_state now s uid") (simp add: update_user_events_def distinct_update)

lemma distinct_update_user_features:
  "distinct (map fst (store s)) \<Longrightarrow> distinct (map fst (store (update_user_features now s uid f)))"
  using distinct_get_user_state[of s now uid]
  by (cases "get_user_state now s uid") (simp add: update_user_features_def distinct_update)

lemma distinct_appends:
  "distinct (map fst (store s)) \<Longrightarrow> distinct (map fst (store (appends s xs)))"
  by (induction s xs rule: appends.induct) (simp_all add: distinct_update_user_events)

lemma reap_example_run:
  "clear_old_entries 10000 reap_example =
     (Inr 1,
      reap_example\<lparr>store :=
        [(''stale'', \<lparr>recent_events = [], feature_vector = [], last_updated = 100, created_at = 100\<rparr>),
         (''busy'', \<lparr>recent_events = [ev ''busy'' 9000], feature_vector = [],
                    last_updated = 9000, created_at = 100\<rparr>)],
        last_cleanup := 10000\<rparr>)"
  by (simp add: reap_example_def ev_def clear_old_entries_def removable_def event_ts_def dict_get_def)

lemma py_lt_numeric: "numeric_ts e \<Longrightarrow> \<exists>b. py_lt (event_ts e) c = Inr b"
  by (simp add: numeric_ts_def split: pyval.splits)

lemma trim_deque_numeric: "\<forall>e\<in>set d. numeric_ts e \<Longrightarrow> fst (trim_deque c d) = None"
proof (induction d)
  case Nil
  then show ?case by simp
next
  case (Cons e d)
  then obtain b where "py_lt (event_ts e) c = Inr b"
    using py_lt_numeric[of e c] by auto
  with Cons show ?case by simp
qed

lemma sweep_numeric:
  "\<forall>(k, st)\<in>set items. \<forall>e\<in>set (recent_events st). numeric_ts e \<Longrightarrow>
   fst (sweep c items) = None"
proof (induction items)
  case Nil
  then show ?case by simp
next
  case (Cons a items)
  obtain k st where a: "a = (k, st)" by (cases a)
  from Cons.prems a have num: "\<forall>e\<in>set (recent_events st). numeric_ts e" by simp
  from Cons have "fst (sweep c items) = None" by simp
  then obtain rm rest where ih: "sweep c items = (None, rm, rest)"
    by (cases "sweep c items") simp
  obtain d where t: "trim_deque c (recent_events st) = (None, d)"
    using trim_deque_numeric[OF num, of c] by (cases "trim_deque c (recent_events st)") simp
  from ih t a show ?case by simp
qed

lemma clear_old_entries_numeric:
  assumes "numeric_store s"
  shows "\<exists>n s'. clear_old_entries now s = (Inr n, s')"
proof -
  let ?c = "now - real_of_int (max_window_minutes s * 60)"
  from assms have "fst (sweep ?c (store s)) = None"
    unfolding numeric_store_def by (rule sweep_numeric)
  then obtain rm items where "sweep ?c (store s) = (None, rm, items)"
    by (cases "sweep ?c (store s)") simp
  then show ?thesis by (simp add: clear_old_entries_def)
qed

lemma set_AList_update: "set (AList.update k v al) \<subseteq> insert (k, v) (set al)"
  by (induction al) auto

lemma set_deque_append: "set (deque_append d e) \<subseteq> insert e (set d)"
proof (cases d)
  case Nil
  then show ?thesis by (simp add: deque_append_def Let_def)
next
  case (Cons a list)
  then show ?thesis by (auto simp: deque_append_def Let_def)
qed

lemma in_store_get_user_state:
  "(k, x) \<in> set (store (snd (get_user_state now s uid))) \<Longrightarrow>
   x = UserState now \<or> (k, x) \<in> set (store s)"
  by (auto simp: get_user_state_def split: option.splits)

lemma fst_get_user_state_cases:
  "fst (get_user_state now s uid) = UserState now \<or> (uid, fst (get_user_state now s uid)) \<in> set (store s)"
  by (auto simp: get_user_state_def split: option.splits dest: map_of_SomeD)

lemma numeric_store_update_user_events:
  assumes "numeric_store s" and "numeric_ts evt"
  shows "numeric_store (update_user_events now s uid evt)"
proof -
  obtain st s1 where g: "get_user_state now s uid = (st, s1)" by (cases "get_user_state now s uid")
  let ?st' = "st\<lparr>recent_events := deque_append (recent_events st) evt, last_updated := now\<rparr>"
  have u: "store (update_user_events now s uid evt) = AList.update uid ?st' (store s1)"
    by (simp add: update_user_events_def g)
  have old: "\<forall>e\<in>set (recent_events st). numeric_ts e"
    using fst_get_user_state_cases[of now s uid] assms(1) g
    by (auto simp: numeric_store_def UserState_def)
  have new: "\<forall>e\<in>set (recent_events ?st'). numeric_ts e"
    using old assms(2) set_deque_append[of "recent_events st" evt] by auto
  have s1: "\<forall>(k, x)\<in>set (store s1). \<forall>e\<in>set (recent_events x). numeric_ts e"
  proof (clarify)
    fix k x e
    assume "(k, x) \<in> set (store s1)" and e: "e \<in> set (recent_events x)"
    with g have "(k, x) \<in> set (store (snd (get_user_state now s uid)))" by simp
    from in_store_get_user_state[OF this] e have "(k, x) \<in> set (store s)"
      by (auto simp: UserState_def)
    with assms(1) e show "numeric_ts e" by (auto simp: numeric_store_def)
  qed
  show ?thesis
    unfolding numeric_store_def u
    using set_AList_update[of uid ?st' "store s1"] new s1 by blast
qed

lemma numeric_store_update_user_features:
  assumes "numeric_store s"
  shows "numeric_store (update_user_features now s uid f)"
proof -
  obtain st s1 where g: "get_user_state now s uid = (st, s1)" by (cases "get_user_state now s uid")
  let ?st' = "st\<lparr>feature_vector := dict_update (feature_vector st) f, last_updated := now\<rparr>"
  have u: "store (update_user_features now s uid f) = AList.update uid ?st' (store s1)"
    by (simp add: update_user_features_def g)
  have new: "\<forall>e\<in>set (recent_events ?st'). numeric_ts e"
    using fst_get_user_state_cases[of now s uid] assms(1) g
    by (auto simp: numeric_store_def UserState_def)
  have s1: "\<forall>(k, x)\<in>set (store s1). \<forall>e\<in>set (recent_events x). numeric_ts e"
  proof (clarify)
    fix k x e
    assume "(k, x) \<in> set (store s1)" and e: "e \<in> set (recent_events x)"
    with g have "(k, x) \<in> set (store (snd (get_user_state now s uid)))" by simp
    from in_store_get_user_state[OF this] e have "(k, x) \<in> set (store s)"
      by (auto simp: UserState_def)
    with assms(1) e show "numeric_ts e" by (auto simp: numeric_store_def)
  qed
  show ?thesis
    unfolding numeric_store_def u
    using set_AList_update[of uid ?st' "store s1"] new s1 by blast
qed

section \<open>Lemmas about the engine\<close>

lemma with_timestamp_unix_numeric:
  "numeric_ts event0 \<Longrightarrow> with_timestamp_unix lib now event0 = Inr event \<Longrightarrow> numeric_ts event"
  by (auto simp: with_timestamp_unix_def numeric_ts_def event_ts_def dict_get_def update_conv'
      split: option.splits sum.splits)

lemma numbers_map_PNum: "numbers (map PNum xs) = Inr xs"
  by (induction xs) simp_all

lemma py_mean_PNum: "xs \<noteq> [] \<Longrightarrow> py_mean (map PNum xs) = Inr (mean_of xs)"
  by (cases xs) (simp_all add: py_mean_def numbers_map_PNum)

lemma default_std_pos: "0 < default_std m"
  by (simp add: default_std_def)


lemma deque_append_last: "deque_append d e \<noteq> [] \<and> last (deque_append d e) = e"
proof (cases "length (d @ [e]) > maxlen")
  case True
  then have "d \<noteq> []" by (auto simp: maxlen_def)
  then have "tl (d @ [e]) = tl d @ [e]" by simp
  with True show ?thesis by (simp add: deque_append_def Let_def)
next
  case False
  then show ?thesis by (simp add: deque_append_def Let_def)
qed

lemma history_after_append:
  "history (update_user_events now s uid e) uid \<noteq> []
   \<and> last (history (update_user_events now s uid e) uid) = e"
  by (simp add: history_update_user_events deque_append_last)

lemmas eval_defs = example_clock_def far_event_def iso_event_def example_lib_def
  StateStore_def update_user_events_def get_user_state_def UserState_def deque_append_def
  maxlen_def calculate_features_def get_recent_events_def effective_window_def event_ts_def
  dict_get_def calculate_amount_features_def calculate_location_features_def
  calculate_time_features_def calculate_behavioral_features_def get_time_features_def
  dict_update_def update_user_features_def should_cleanup_def with_timestamp_unix_def
  replace_Z_def max_count_def

lemma far_event_fails:
  "calculate_features example_lib (example_clock 2, example_clock 3, example_clock 4)
     (update_user_events (example_clock 1) (StateStore 1700000000 60 300) (PStr ''u'') far_event)
     (PStr ''u'') = Inl ValueError"
  by (simp add: eval_defs)

lemma iso_event_features:
  "calculate_features example_lib (example_clock 2, example_clock 3, example_clock 4)
     (update_user_events (example_clock 1) (StateStore 1700000000 60 300) (PStr ''u'')
        (AList.update ''timestamp_unix'' (PNum 1704067200) iso_event))
     (PStr ''u'') =
   Inr [(''transaction_velocity_1h'', 1), (''amount_zscore'', 0), (''amount_volatility'', 0),
        (''location_anomaly'', 0), (''location_consistency'', 1), (''time_pattern_score'', 0),
        (''merchant_diversity'', 0), (''payment_method_consistency'', 1)]"
  by (simp add: eval_defs)

lemma bad_event_run:
  "process_event example_lib example_clock (StateStore 1700000000 60 300) bad_event
     = (False, poisoned_store)"
  by (simp add: process_event_def process_event_body_def eval_defs bad_event_def
      poisoned_store_def)

lemma poisoned_features:
  "calculate_features example_lib (late_clock 2, late_clock 3, late_clock 4)
     (update_user_events (late_clock 1) poisoned_store (PStr ''u'')
        (AList.update ''timestamp_unix'' (PNum 1704067200) iso_event))
     (PStr ''u'') =
   Inr [(''transaction_velocity_1h'', 1), (''amount_zscore'', 0), (''amount_volatility'', 0),
        (''location_anomaly'', 0), (''location_consistency'', 1), (''time_pattern_score'', 0),
        (''merchant_diversity'', 0), (''payment_method_consistency'', 1)]"
  by (simp add: eval_defs late_clock_def poisoned_store_def bad_event_def)

lemma poisoned_run:
  "fst (process_event example_lib late_clock poisoned_store iso_event) = False"
  by (simp add: process_event_def process_event_body_def eval_defs late_clock_def
      poisoned_store_def bad_event_def clear_old_entries_def removable_def)

section \<open>C1: what a reap removes and what it keeps\<close>

text \<open>
  C1, as the code has it. When \<open>clear_old_entries\<close> returns, an entity is deleted
  exactly when its \<open>last_updated\<close> and \<open>created_at\<close> are both before the cutoff
  (reap time minus the window) and its history is empty when the reap starts; every other
  entity is kept, with the expired events popped from the front of its history. So an
  entity that has an entry left after trimming is kept. The returned count is the number
  of deleted entities and \<open>last_cleanup\<close> becomes the reap time.
\<close>

theorem clear_old_entries_spec:
  assumes "distinct (map fst (store s))"
    and "clear_old_entries now s = (Inr n, s')"
    and "map_of (store s) uid = Some st"
    and "cutoff = now - real_of_int (max_window_minutes s * 60)"
  shows "(if removable cutoff st then map_of (store s') uid = None
          else map_of (store s') uid =
                 Some (st\<lparr>recent_events := dropWhile (expired cutoff) (recent_events st)\<rparr>))
         \<and> (dropWhile (expired cutoff) (recent_events st) \<noteq> [] \<longrightarrow> map_of (store s') uid \<noteq> None)
         \<and> n = int (length (filter (\<lambda>(k, st). removable cutoff st) (store s)))
         \<and> last_cleanup s' = now"
proof -
  from clear_old_entries_Inr[OF assms(2,4)]
  obtain rm items where sw: "sweep cutoff (store s) = (None, rm, items)"
    and n: "n = int (length rm)"
    and s': "s' = s\<lparr>store := filter (\<lambda>(k, st). k \<notin> set rm) items, last_cleanup := now\<rparr>"
    by blast
  note rm = sweep_None'(1)[OF sw]
  note look = clear_old_entries_lookup[OF assms]
  have ne: "dropWhile (expired cutoff) (recent_events st) \<noteq> [] \<Longrightarrow> \<not> removable cutoff st"
    by (auto simp: removable_def)
  have cnt: "n = int (length (filter (\<lambda>(k, st). removable cutoff st) (store s)))"
    by (simp add: n rm)
  have lc: "last_cleanup s' = now"
    by (simp add: s')
  have l1: "if removable cutoff st then map_of (store s') uid = None
          else map_of (store s') uid =
                 Some (st\<lparr>recent_events := dropWhile (expired cutoff) (recent_events st)\<rparr>)"
    by (simp add: look reap_state_def)
  have l2: "dropWhile (expired cutoff) (recent_events st) \<noteq> [] \<longrightarrow> map_of (store s') uid \<noteq> None"
    using ne by (simp add: look)
  show ?thesis by (intro conjI l1 l2 cnt lc)
qed

theorem clear_old_entries_witness:
  "distinct (map fst (store reap_example))
   \<and> fst (clear_old_entries 10000 reap_example) = Inr 1
   \<and> map_of (store (snd (clear_old_entries 10000 reap_example))) ''idle'' = None
   \<and> map_of (store (snd (clear_old_entries 10000 reap_example))) ''busy''
       = Some \<lparr>recent_events = [ev ''busy'' 9000], feature_vector = [],
                last_updated = 9000, created_at = 100\<rparr>
   \<and> last_cleanup (snd (clear_old_entries 10000 reap_example)) = 10000"
proof -
  have d: "distinct (map fst (store reap_example))"
    by (simp add: reap_example_def)
  have r: "clear_old_entries 10000 reap_example =
      (Inr 1, snd (clear_old_entries 10000 reap_example))"
    by (simp add: reap_example_run)
  have c: "(6400::real) = 10000 - real_of_int (max_window_minutes reap_example * 60)"
    by (simp add: reap_example_def)
  have i: "map_of (store reap_example) ''idle''
      = Some \<lparr>recent_events = [], feature_vector = [], last_updated = 100, created_at = 100\<rparr>"
    by (simp add: reap_example_def)
  have b: "map_of (store reap_example) ''busy''
      = Some \<lparr>recent_events = [ev ''busy'' 100, ev ''busy'' 9000], feature_vector = [],
                    last_updated = 9000, created_at = 100\<rparr>"
    by (simp add: reap_example_def)
  have f: "fst (clear_old_entries 10000 reap_example) = Inr 1"
    by (simp add: reap_example_run)
  from clear_old_entries_spec[OF d r i c] clear_old_entries_spec[OF d r b c] d f
  show ?thesis
    by (simp add: removable_def expired_def ev_def event_ts_def dict_get_def)
qed

text \<open>
  The claim as written fails for the user \<open>stale\<close> of the example: both timestamps
  are before the cutoff and the history is empty after trimming, but the emptiness test
  ran before the trimming, so the entity is still in the store after the reap.
\<close>

theorem clear_old_entries_counterexample:
  "last_updated (the (map_of (store reap_example) ''stale'')) < 10000 - real_of_int (max_window_minutes reap_example * 60)
   \<and> created_at (the (map_of (store reap_example) ''stale'')) < 10000 - real_of_int (max_window_minutes reap_example * 60)
   \<and> map_of (store (snd (clear_old_entries 10000 reap_example))) ''stale''
       = Some \<lparr>recent_events = [], feature_vector = [], last_updated = 100, created_at = 100\<rparr>"
  by (simp add: reap_example_def ev_def clear_old_entries_def removable_def event_ts_def dict_get_def)

section \<open>C7: the windowed read\<close>

text \<open>
  C7, as the code has it. For a window size \<open>m\<close> other than 0, and a history whose
  events all carry a numeric epoch (or none, read as 0), \<open>get_recent_events\<close> returns
  exactly the events of the entity's history with epoch strictly greater than
  \<open>now - m * 60\<close>, in insertion order, and the empty list for an unknown id. With no
  window size given, the store's \<open>max_window_minutes\<close> is the window.
\<close>

theorem get_recent_events_spec:
  assumes "m \<noteq> 0"
    and "\<forall>st. map_of (store s) uid = Some st \<longrightarrow> (\<forall>e\<in>set (recent_events st). numeric_ts e)"
  shows "get_recent_events now s uid (Some m) =
           Inr (case map_of (store s) uid of
                  None \<Rightarrow> []
                | Some st \<Rightarrow> filter (\<lambda>e. epoch e > now - real_of_int m * 60) (recent_events st))
         \<and> get_recent_events now s uid None =
           Inr (case map_of (store s) uid of
                  None \<Rightarrow> []
                | Some st \<Rightarrow>
                    filter (\<lambda>e. epoch e > now - real_of_int (max_window_minutes s) * 60)
                      (recent_events st))"
proof (cases "map_of (store s) uid")
  case None
  then show ?thesis by (simp add: get_recent_events_def)
next
  case (Some st)
  with assms(2) have num: "\<forall>e\<in>set (recent_events st). numeric_ts e" by simp
  show ?thesis
    using Some assms(1)
    by (simp add: get_recent_events_def effective_window_def filter_window_numeric[OF num])
qed

theorem get_recent_events_witness:
  "(10::int) \<noteq> 0
   \<and> get_recent_events 1700000000 window_example ''u'' (Some 10) = Inr [ev ''u'' 1699999990]
   \<and> get_recent_events 1700000000 window_example ''u'' None
        = Inr [ev ''u'' 1699999000, ev ''u'' 1699999990]
   \<and> get_recent_events 1700000000 window_example ''nobody'' (Some 10) = Inr []"
proof -
  have m: "(10::int) \<noteq> 0" by simp
  have n: "\<forall>st. map_of (store window_example) uid = Some st \<longrightarrow>
             (\<forall>e\<in>set (recent_events st). numeric_ts e)" for uid
    by (simp add: window_example_def ev_def ev_no_ts_def numeric_ts_def event_ts_def dict_get_def)
  from get_recent_events_spec[OF m n, of 1700000000 "''u''"]
    get_recent_events_spec[OF m n, of 1700000000 "''nobody''"]
  show ?thesis
    by (simp add: window_example_def ev_def ev_no_ts_def epoch_def event_ts_def dict_get_def)
qed

text \<open>
  The claim as written fails for the window size 0: Python's \<^verbatim>\<open>or\<close> replaces it
  by the store's 60 minutes, so the read returns the two events of the last hour, where
  the claim's filter (epoch greater than now) keeps nothing.
\<close>

theorem get_recent_events_counterexample:
  "get_recent_events 1700000000 window_example ''u'' (Some 0)
     = Inr [ev ''u'' 1699999000, ev ''u'' 1699999990]
   \<and> filter (\<lambda>e. epoch e > 1700000000 - real_of_int 0 * 60)
        (recent_events (the (map_of (store window_example) ''u''))) = []"
  by (simp add: get_recent_events_def effective_window_def window_example_def ev_def ev_no_ts_def epoch_def
      event_ts_def dict_get_def)

section \<open>C10: events without a timestamp\<close>

text \<open>
  C10, as the code has it. A stored event without a \<^verbatim>\<open>timestamp_unix\<close> key is read
  with epoch 0. It is in no windowed slice whose cutoff \<open>now - window * 60\<close> is not
  negative, and a reap whose cutoff is positive pops it as soon as every event before it
  in the history is expired: the history kept is what the trimming leaves of the events
  after it.
\<close>

theorem missing_timestamp_spec:
  assumes "map_of e ''timestamp_unix'' = None"
  shows "event_ts e = PNum 0
    \<and> (\<forall>r. 0 \<le> now - real_of_int (effective_window s w * 60)
           \<and> get_recent_events now s uid w = Inr r \<longrightarrow> e \<notin> set r)
    \<and> (\<forall>n s' st pre post.
          distinct (map fst (store s)) \<and> clear_old_entries now s = (Inr n, s')
          \<and> map_of (store s) uid = Some st \<and> recent_events st = pre @ e # post
          \<and> (\<forall>x\<in>set pre. expired (now - real_of_int (max_window_minutes s * 60)) x)
          \<and> 0 < now - real_of_int (max_window_minutes s * 60)
          \<longrightarrow> map_of (store s') uid =
                Some (st\<lparr>recent_events :=
                   dropWhile (expired (now - real_of_int (max_window_minutes s * 60))) post\<rparr>))"
proof -
  have ts: "event_ts e = PNum 0"
    using assms by (simp add: event_ts_def dict_get_def)
  have win: "e \<notin> set r"
    if c: "0 \<le> now - real_of_int (effective_window s w * 60)"
      and g: "get_recent_events now s uid w = Inr r" for r
  proof
    assume mem: "e \<in> set r"
    show False
    proof (cases "map_of (store s) uid")
      case None
      with g mem show False by (simp add: get_recent_events_def)
    next
      case (Some st)
      with g have "filter_window (now - real_of_int (effective_window s w * 60)) (recent_events st) = Inr r"
        by (simp add: get_recent_events_def)
      from filter_window_member[OF this mem] ts c show False by simp
    qed
  qed
  have reap: "map_of (store s') uid =
                Some (st\<lparr>recent_events :=
                   dropWhile (expired (now - real_of_int (max_window_minutes s * 60))) post\<rparr>)"
    if d: "distinct (map fst (store s))" and r: "clear_old_entries now s = (Inr n, s')"
      and m: "map_of (store s) uid = Some st" and h: "recent_events st = pre @ e # post"
      and p: "\<forall>x\<in>set pre. expired (now - real_of_int (max_window_minutes s * 60)) x"
      and c: "0 < now - real_of_int (max_window_minutes s * 60)"
    for n s' st pre post
  proof -
    have nr: "\<not> removable (now - real_of_int (max_window_minutes s * 60)) st"
      using h by (simp add: removable_def)
    have ex: "expired (now - real_of_int (max_window_minutes s * 60)) e"
      using ts c by (simp add: expired_def)
    from clear_old_entries_lookup[OF d r m refl] nr
    have "map_of (store s') uid = Some (reap_state (now - real_of_int (max_window_minutes s * 60)) st)"
      by simp
    then show ?thesis
      using nr h dropWhile_reach[OF p ex] by (simp add: reap_state_def)
  qed
  from ts win reap show ?thesis by blast
qed

theorem missing_timestamp_witness:
  "map_of (ev_no_ts ''u'') ''timestamp_unix'' = None
   \<and> event_ts (ev_no_ts ''u'') = PNum 0
   \<and> get_recent_events 1700000000 window_example ''u'' (Some 10080)
        = Inr [ev ''u'' 1699990000, ev ''u'' 1699999000, ev ''u'' 1699999990]
   \<and> ev_no_ts ''u'' \<notin> set [ev ''u'' 1699990000, ev ''u'' 1699999000, ev ''u'' 1699999990]
   \<and> map_of (store (snd (clear_old_entries 1700000000 window_example))) ''u''
        = Some \<lparr>recent_events = [ev ''u'' 1699999000, ev ''u'' 1699999990],
                 feature_vector = [], last_updated = 1699999990, created_at = 1699990000\<rparr>"
proof -
  let ?e = "ev_no_ts ''u''"
  let ?r = "[ev ''u'' 1699990000, ev ''u'' 1699999000, ev ''u'' 1699999990]"
  let ?st = "\<lparr>recent_events = [ev ''u'' 1699990000, ev_no_ts ''u'', ev ''u'' 1699999000,
                     ev ''u'' 1699999990],
                  feature_vector = [], last_updated = 1699999990, created_at = 1699990000\<rparr>"
  have h: "map_of ?e ''timestamp_unix'' = None"
    by (simp add: ev_no_ts_def)
  note spec = missing_timestamp_spec[OF h, of 1700000000 window_example "Some 10080" "''u''"]
  have c: "0 \<le> 1700000000 - real_of_int (effective_window window_example (Some 10080) * 60)"
    by (simp add: effective_window_def)
  have g: "get_recent_events 1700000000 window_example ''u'' (Some 10080) = Inr ?r"
    by (simp add: get_recent_events_def effective_window_def window_example_def ev_def
        ev_no_ts_def event_ts_def dict_get_def)
  from spec c g have notin: "?e \<notin> set ?r" by blast
  have d: "distinct (map fst (store window_example))"
    by (simp add: window_example_def)
  have run: "clear_old_entries 1700000000 window_example
               = (Inr 0, snd (clear_old_entries 1700000000 window_example))"
    by (simp add: window_example_reap)
  have m: "map_of (store window_example) ''u'' = Some ?st"
    by (simp add: window_example_def)
  have hist: "recent_events ?st = [ev ''u'' 1699990000] @ ?e # [ev ''u'' 1699999000, ev ''u'' 1699999990]"
    by simp
  have pre: "\<forall>x\<in>set [ev ''u'' 1699990000].
               expired (1700000000 - real_of_int (max_window_minutes window_example * 60)) x"
    by (simp add: expired_def ev_def event_ts_def dict_get_def window_example_def)
  have pos: "0 < 1700000000 - real_of_int (max_window_minutes window_example * 60)"
    by (simp add: window_example_def)
  from spec d run m hist pre pos
  have "map_of (store (snd (clear_old_entries 1700000000 window_example))) ''u'' =
      Some (?st\<lparr>recent_events :=
         dropWhile (expired (1700000000 - real_of_int (max_window_minutes window_example * 60)))
           [ev ''u'' 1699999000, ev ''u'' 1699999990]\<rparr>)"
    by blast
  then have reap: "map_of (store (snd (clear_old_entries 1700000000 window_example))) ''u''
        = Some \<lparr>recent_events = [ev ''u'' 1699999000, ev ''u'' 1699999990],
                 feature_vector = [], last_updated = 1699999990, created_at = 1699990000\<rparr>"
    by (simp add: expired_def ev_def event_ts_def dict_get_def window_example_def)
  from spec have ts: "event_ts ?e = PNum 0" by blast
  from h ts g notin reap show ?thesis by (intro conjI)
qed

text \<open>
  The claim as written fails for a window that reaches back before the epoch: with
  30000000 minutes the cutoff is negative, and the event without a timestamp is part of
  the slice.
\<close>

theorem missing_timestamp_counterexample:
  "map_of (ev_no_ts ''u'') ''timestamp_unix'' = None
   \<and> get_recent_events 1700000000 window_example ''u'' (Some 30000000)
        = Inr [ev ''u'' 1699990000, ev_no_ts ''u'', ev ''u'' 1699999000, ev ''u'' 1699999990]"
  by (simp add: get_recent_events_def effective_window_def window_example_def ev_def
        ev_no_ts_def event_ts_def dict_get_def)

section \<open>C6: the history is bounded by its capacity\<close>

text \<open>
  C6. After any sequence of appends to a new store, the history of every id is the last
  \<open>maxlen\<close> = 1000 events appended for that id, in order: its length never exceeds the
  capacity. An append to a history at capacity drops exactly its first (oldest) entry,
  whatever the timestamps, and a windowed read returns at most \<open>maxlen\<close> entries for
  every window size.
\<close>

theorem history_capacity:
  fixes s :: "'k state_store"
  assumes "s = appends (StateStore t0 mwm ci) xs"
  shows "history s uid = lastn maxlen (events_for uid xs)
    \<and> length (history s uid) \<le> maxlen
    \<and> (length (history s uid) = maxlen \<longrightarrow>
         history (update_user_events now s uid e) uid = tl (history s uid) @ [e])
    \<and> (\<forall>r. get_recent_events now s uid w = Inr r \<longrightarrow> length r \<le> maxlen)"
proof -
  have "length (history (StateStore t0 mwm ci :: 'k state_store) uid) \<le> maxlen"
    by (simp add: history_StateStore)
  from history_appends[OF this, of xs]
  have h: "history s uid = lastn maxlen (events_for uid xs)"
    by (simp add: assms history_StateStore)
  then have b: "length (history s uid) \<le> maxlen"
    by (simp add: length_lastn)
  have c: "length (history s uid) = maxlen \<longrightarrow>
         history (update_user_events now s uid e) uid = tl (history s uid) @ [e]"
  proof
    assume len: "length (history s uid) = maxlen"
    then have "history s uid \<noteq> []" by (auto simp: maxlen_def)
    with len show "history (update_user_events now s uid e) uid = tl (history s uid) @ [e]"
      by (simp add: history_update_user_events deque_append_def Let_def)
  qed
  have d: "\<forall>r. get_recent_events now s uid w = Inr r \<longrightarrow> length r \<le> maxlen"
    using get_recent_events_length b by (metis order_trans)
  from h b c d show ?thesis by (intro conjI)
qed

theorem history_capacity_witness:
  "history (update_user_events 1700000001
       (appends (StateStore 0 60 300) (replicate 1000 (1700000000, ''u'', ev ''u'' 1700000000)))
       ''u'' (ev ''u'' 1700000001)) ''u''
     = replicate 999 (ev ''u'' 1700000000) @ [ev ''u'' 1700000001]
   \<and> length (history (appends (StateStore 0 60 300)
         (replicate 1000 (1700000000, ''u'', ev ''u'' 1700000000))) ''u'') = 1000
   \<and> get_recent_events 1700000001 (appends (StateStore 0 60 300)
         (replicate 1000 (1700000000, ''u'', ev ''u'' 1700000000))) ''u'' (Some 1000000)
       = Inr (replicate 1000 (ev ''u'' 1700000000))"
proof -
  let ?e = "ev ''u'' 1700000000"
  let ?xs = "replicate 1000 (1700000000 :: real, ''u'', ?e)"
  let ?s = "appends (StateStore 0 60 300) ?xs :: string state_store"
  note spec = history_capacity[OF refl, of 0 60 300 ?xs "''u''" 1700000001 "ev ''u'' 1700000001" "Some 1000000"]
  have ef: "events_for ''u'' ?xs = replicate 1000 ?e"
    by (simp add: events_for_def)
  from spec have h: "history ?s ''u'' = replicate 1000 ?e"
    by (simp add: ef lastn_def maxlen_def)
  then have len: "length (history ?s ''u'') = maxlen"
    by (simp add: maxlen_def)
  with spec have "history (update_user_events 1700000001 ?s ''u'' (ev ''u'' 1700000001)) ''u''
      = tl (history ?s ''u'') @ [ev ''u'' 1700000001]"
    by blast
  also have "tl (history ?s ''u'') = replicate 999 ?e"
    by (simp add: h)
  finally have a: "history (update_user_events 1700000001 ?s ''u'' (ev ''u'' 1700000001)) ''u''
      = replicate 999 ?e @ [ev ''u'' 1700000001]" .
  have num: "\<forall>x\<in>set (replicate 1000 ?e). numeric_ts x"
    by (simp add: numeric_ts_def ev_def event_ts_def dict_get_def)
  obtain st where st: "map_of (store ?s) ''u'' = Some st" and re: "recent_events st = replicate 1000 ?e"
    using h by (auto simp: history_def split: option.splits)
  have g: "get_recent_events 1700000001 ?s ''u'' (Some 1000000) = Inr (replicate 1000 ?e)"
    using st re filter_window_numeric[OF num, of "1700000001 - 60000000"]
    by (simp add: get_recent_events_def effective_window_def epoch_def ev_def event_ts_def dict_get_def)
  from a len g show ?thesis by (simp add: maxlen_def)
qed

section \<open>C3: when a state is created\<close>

text \<open>
  C3, as the code has it. An append (\<open>update_user_events\<close>) adds exactly the key of
  its id to the store when the id is unknown and no key otherwise; the state it creates
  for an unknown id holds that one event, an empty feature vector and the time of the
  append. The windowed read of an unknown id returns the empty list; it and
  \<open>get_stats\<close> do not return a store: they assign nothing.
\<close>

theorem state_creation:
  "map fst (store (update_user_events now s uid e)) =
     (if uid \<in> set (map fst (store s)) then map fst (store s) else map fst (store s) @ [uid])
   \<and> (map_of (store s) uid = None \<longrightarrow>
        map_of (store (update_user_events now s uid e)) uid =
          Some \<lparr>recent_events = [e], feature_vector = [], last_updated = now, created_at = now\<rparr>
        \<and> get_recent_events now' s uid w = Inr [])"
proof -
  have keys: "map fst (store (update_user_events now s uid e)) =
     (if uid \<in> set (map fst (store s)) then map fst (store s) else map fst (store s) @ [uid])"
  proof (cases "map_of (store s) uid")
    case None
    then have "uid \<notin> set (map fst (store s))" by (simp add: map_of_eq_None_iff)
    with None show ?thesis
      by (simp add: update_user_events_def get_user_state_def update_keys)
  next
    case (Some st)
    then have "uid \<in> set (map fst (store s))"
      by (metis domI dom_map_of_conv_image_fst set_map)
    with Some show ?thesis
      by (simp add: update_user_events_def get_user_state_def update_keys)
  qed
  have new: "map_of (store s) uid = None \<longrightarrow>
        map_of (store (update_user_events now s uid e)) uid =
          Some \<lparr>recent_events = [e], feature_vector = [], last_updated = now, created_at = now\<rparr>
        \<and> get_recent_events now' s uid w = Inr []"
    by (simp add: update_user_events_def get_user_state_def update_conv' UserState_def
        deque_append_def maxlen_def get_recent_events_def)
  from keys new show ?thesis by (intro conjI)
qed

theorem state_creation_witness:
  "store (update_user_events 1700000000 (StateStore 0 60 300) ''u'' (ev ''u'' 1700000000))
     = [(''u'', \<lparr>recent_events = [ev ''u'' 1700000000], feature_vector = [],
                 last_updated = 1700000000, created_at = 1700000000\<rparr>)]
   \<and> get_recent_events 1700000000 (StateStore 0 60 300) ''u'' (Some 60) = Inr []"
proof -
  let ?s = "StateStore 0 60 300 :: string state_store"
  have n: "map_of (store ?s) ''u'' = None" by (simp add: StateStore_def)
  from state_creation[of 1700000000 ?s "''u''" "ev ''u'' 1700000000" 1700000000 "Some 60"] n
  have k: "map fst (store (update_user_events 1700000000 ?s ''u'' (ev ''u'' 1700000000))) = [''u'']"
    and m: "map_of (store (update_user_events 1700000000 ?s ''u'' (ev ''u'' 1700000000))) ''u'' =
          Some \<lparr>recent_events = [ev ''u'' 1700000000], feature_vector = [],
                 last_updated = 1700000000, created_at = 1700000000\<rparr>"
    and g: "get_recent_events 1700000000 ?s ''u'' (Some 60) = Inr []"
    by (simp_all add: StateStore_def)
  from k obtain st where
    "store (update_user_events 1700000000 ?s ''u'' (ev ''u'' 1700000000)) = [(''u'', st)]"
    by (cases "store (update_user_events 1700000000 ?s ''u'' (ev ''u'' 1700000000))") auto
  with m g show ?thesis by simp
qed

text \<open>
  The claim as written fails for \<open>get_features\<close>: it reads through
  \<open>get_user_state\<close>, which creates, so a read of an unknown id in a new store leaves
  an empty state for that id.
\<close>

theorem state_creation_counterexample:
  "map_of (store (StateStore 0 60 300 :: string state_store)) ''nobody'' = None
   \<and> store (snd (get_features 1700000000 (StateStore 0 60 300) ''nobody''))
       = [(''nobody'', \<lparr>recent_events = [], feature_vector = [],
                        last_updated = 1700000000, created_at = 1700000000\<rparr>)]"
  by (simp add: get_features_def get_user_features_def get_user_state_def StateStore_def
      UserState_def)

section \<open>C4: the defaults of an entity without features\<close>

text \<open>
  C4. For an id that the store does not know, or whose stored feature vector is empty,
  \<open>get_features\<close> returns exactly the eight named features with their defaults (in
  the order of the source's \<^verbatim>\<open>default_features\<close>); and for every store and id the
  result has all eight names, so it is never partially populated.
\<close>

theorem get_features_defaults:
  fixes s s' :: "'k state_store"
  assumes "case map_of (store s) uid of None \<Rightarrow> True | Some st \<Rightarrow> feature_vector st = []"
  shows "fst (get_features now s uid) =
      [(''transaction_velocity_1h'', 0), (''amount_zscore'', 0), (''location_anomaly'', 0),
       (''time_pattern_score'', 0), (''merchant_diversity'', 0),
       (''payment_method_consistency'', 1), (''amount_volatility'', 0),
       (''location_consistency'', 1)]
    \<and> fst ` set default_features \<subseteq> fst ` set (fst (get_features now' s' uid'))"
proof -
  from assms have "(case map_of (store s) uid of None \<Rightarrow> [] | Some st \<Rightarrow> feature_vector st) = []"
    by (simp split: option.splits)
  then have "fst (get_features now s uid) = default_features"
    by (simp add: fst_get_features fill_defaults_empty)
  moreover have "fst ` set default_features \<subseteq> fst ` set (fst (get_features now' s' uid'))"
    by (simp add: fst_get_features fill_defaults_keys)
  ultimately show ?thesis by (simp add: default_features_def)
qed

theorem get_features_defaults_witness:
  "fst (get_features 1700000000 (StateStore 0 60 300) ''nobody'') =
      [(''transaction_velocity_1h'', 0), (''amount_zscore'', 0), (''location_anomaly'', 0),
       (''time_pattern_score'', 0), (''merchant_diversity'', 0),
       (''payment_method_consistency'', 1), (''amount_volatility'', 0),
       (''location_consistency'', 1)]"
proof -
  have "case map_of (store (StateStore 0 60 300 :: string state_store)) ''nobody'' of
          None \<Rightarrow> True | Some st \<Rightarrow> feature_vector st = []"
    by (simp add: StateStore_def)
  from get_features_defaults[OF this, of 1700000000 0 "StateStore 0 60 300" "''nobody''"]
  show ?thesis by (rule conjunct1)
qed

section \<open>C9: reading the features twice\<close>

text \<open>
  C9. After a \<open>get_features\<close> for any id, a second \<open>get_features\<close> returns for every
  id what a read of the store before the first call returns, whatever the clock readings;
  and the second read of the same id leaves the store as the first read left it.
\<close>

theorem get_features_idempotent:
  "fst (get_features t2 (snd (get_features t1 s uid)) uid') = fst (get_features t3 s uid')
   \<and> snd (get_features t2 (snd (get_features t1 s uid)) uid) = snd (get_features t1 s uid)"
proof -
  have "(case map_of (store (snd (get_user_state t1 s uid))) uid' of
           None \<Rightarrow> [] | Some st \<Rightarrow> feature_vector st)
      = (case map_of (store s) uid' of None \<Rightarrow> [] | Some st \<Rightarrow> feature_vector st)"
    by (simp add: map_of_get_user_state UserState_def)
  then have a: "fst (get_features t2 (snd (get_features t1 s uid)) uid') = fst (get_features t3 s uid')"
    by (simp add: fst_get_features snd_get_features)
  have "map_of (store (snd (get_user_state t1 s uid))) uid \<noteq> None"
    by (simp add: map_of_get_user_state)
  then obtain st where "map_of (store (snd (get_user_state t1 s uid))) uid = Some st"
    by blast
  from get_user_state_known[OF this]
  have b: "snd (get_features t2 (snd (get_features t1 s uid)) uid) = snd (get_features t1 s uid)"
    by (simp add: snd_get_features)
  from a b show ?thesis by (intro conjI)
qed

section \<open>C2: the standard deviation when it degenerates\<close>

text \<open>
  C2, as the code has it. For a slice of at least two (numeric) amounts, with \<open>m\<close> the
  mean of all but the last: when there is exactly one historical amount, or the sample
  standard deviation of two or more historical amounts is 0, the standard deviation used
  is \<open>\<bar>m\<bar> * 0.1\<close> when \<open>m\<close> is not 0 and 1.0 when it is, and the z-score and
  the volatility are computed with that value.
\<close>

theorem amount_std_fallback:
  assumes "map (\<lambda>e. dict_get e ''amount'' (PNum 0)) events = map PNum amounts"
    and "2 \<le> length amounts"
    and "length (butlast amounts) = 1 \<or> py_stdev (map PNum (butlast amounts)) = Inr 0"
    and "m = mean_of (butlast amounts)"
  shows "std_amount_of (map PNum (butlast amounts)) m = Inr (if m \<noteq> 0 then \<bar>m\<bar> * 0.1 else 1.0)
    \<and> calculate_amount_features events =
        Inr [(''amount_zscore'', (last amounts - m) / (if m \<noteq> 0 then \<bar>m\<bar> * 0.1 else 1.0)),
             (''amount_volatility'', if m > 0 then (if m \<noteq> 0 then \<bar>m\<bar> * 0.1 else 1.0) / m else 0)]"
proof -
  let ?h = "butlast amounts"
  from assms(2) have ne: "amounts \<noteq> []" and hne: "?h \<noteq> []"
    by (auto simp: butlast_conv_take)
  have std: "std_amount_of (map PNum ?h) m = Inr (default_std m)"
    using assms(3) by (auto simp: std_amount_of_def)
  have mean: "py_mean (map PNum ?h) = Inr m"
    using hne by (simp add: py_mean_PNum assms(4))
  have last: "last (map PNum amounts) = PNum (last amounts)"
    using ne by (simp add: last_map)
  have "calculate_amount_features events =
        Inr [(''amount_zscore'', (last amounts - m) / default_std m),
             (''amount_volatility'', if m > 0 then default_std m / m else 0)]"
    using assms(2) hne default_std_pos[of m]
    by (simp add: calculate_amount_features_def assms(1) Let_def map_butlast[symmetric]
        mean std last del: map_butlast)
  with std show ?thesis by (simp add: default_std_def)
qed

theorem amount_std_fallback_witness:
  "calculate_amount_features [amt 5, amt 7] =
     Inr [(''amount_zscore'', 4), (''amount_volatility'', 1 / 10)]
   \<and> py_stdev (map PNum (butlast [200, 200, 500])) = Inr 0
   \<and> calculate_amount_features [amt 200, amt 200, amt 500] =
     Inr [(''amount_zscore'', 15), (''amount_volatility'', 1 / 10)]"
proof -
  have a1: "map (\<lambda>e. dict_get e ''amount'' (PNum 0)) [amt 5, amt 7] = map PNum [5, 7]"
    by (simp add: amt_def dict_get_def)
  have b1: "2 \<le> length [5, 7 :: real]" by simp
  have c1: "length (butlast [5, 7 :: real]) = 1 \<or> py_stdev (map PNum (butlast [5, 7])) = Inr 0"
    by simp
  have d1: "(5 :: real) = mean_of (butlast [5, 7])" by (simp add: mean_of_def)
  have a2: "map (\<lambda>e. dict_get e ''amount'' (PNum 0)) [amt 200, amt 200, amt 500]
              = map PNum [200, 200, 500]"
    by (simp add: amt_def dict_get_def)
  have b2: "2 \<le> length [200, 200, 500 :: real]" by simp
  have s2: "py_stdev (map PNum (butlast [200, 200, 500])) = Inr 0"
    by (simp add: py_stdev_def mean_of_def)
  then have c2: "length (butlast [200, 200, 500 :: real]) = 1
      \<or> py_stdev (map PNum (butlast [200, 200, 500])) = Inr 0"
    by (rule disjI2)
  have d2: "(200 :: real) = mean_of (butlast [200, 200, 500])" by (simp add: mean_of_def)
  from amount_std_fallback[OF a1 b1 c1 d1] amount_std_fallback[OF a2 b2 c2 d2] s2
  show ?thesis by simp
qed

text \<open>
  The claim as written fails for the amounts 5 and 7: there is one historical amount,
  the mean is 5, and the code uses 0.5, not \<open>max (\<bar>5\<bar> * 0.1) 1.0 = 1\<close>; the z-score is
  4 and the volatility 0.1, where the claim's value gives 2 and 0.2.
\<close>

theorem amount_std_fallback_counterexample:
  "length (butlast [5, 7 :: real]) = 1
   \<and> std_amount_of (map PNum (butlast [5, 7])) (mean_of (butlast [5, 7])) = Inr (1 / 2)
   \<and> max (\<bar>mean_of (butlast [5, 7])\<bar> * 0.1) 1.0 = 1
   \<and> calculate_amount_features [amt 5, amt 7] =
     Inr [(''amount_zscore'', 4), (''amount_volatility'', 1 / 10)]"
  by (simp add: std_amount_of_def default_std_def mean_of_def calculate_amount_features_def
      amt_def dict_get_def py_mean_def)

section \<open>C5: the result of processing an event\<close>

text \<open>
  C5, as the code has it. \<open>process_event\<close> returns a value for every input, so no
  exception leaves it, and the value is False whenever its body raises: before the
  append (the timestamp derivation raises or the event has no user id), with the store
  unchanged; in the feature computation, with the store as the append left it and the
  event the newest entry of the user's history; or in the periodic cleanup, when it is
  due, after the features were written. It returns True when the computation returns and
  the cleanup is not due or returns, which is the case for every event and store whose
  \<^verbatim>\<open>timestamp_unix\<close> values are numbers.
\<close>

theorem process_event_result:
  "(\<forall>err. with_timestamp_unix lib (clk 0) event0 = Inl err \<longrightarrow>
       process_event lib clk s event0 = (False, s))
   \<and> (\<forall>event. with_timestamp_unix lib (clk 0) event0 = Inr event \<longrightarrow>
        (map_of event ''user_id'' = None \<longrightarrow> process_event lib clk s event0 = (False, s))
        \<and> (\<forall>user_id s1.
              map_of event ''user_id'' = Some user_id
              \<and> s1 = update_user_events (clk 1) s user_id event \<longrightarrow>
              history s1 user_id \<noteq> [] \<and> last (history s1 user_id) = event
              \<and> (\<forall>err. calculate_features lib (clk 2, clk 3, clk 4) s1 user_id = Inl err \<longrightarrow>
                     process_event lib clk s event0 = (False, s1))
              \<and> (\<forall>features s2.
                    calculate_features lib (clk 2, clk 3, clk 4) s1 user_id = Inr features
                    \<and> s2 = update_user_features (clk 5) s1 user_id features \<longrightarrow>
                    (\<not> should_cleanup (clk 6) s2 \<longrightarrow>
                       process_event lib clk s event0 = (True, s2))
                    \<and> (\<forall>cleared s3. should_cleanup (clk 6) s2
                          \<and> clear_old_entries (clk 7) s2 = (Inr cleared, s3) \<longrightarrow>
                          process_event lib clk s event0 = (True, s3))
                    \<and> (\<forall>err s3. should_cleanup (clk 6) s2
                          \<and> clear_old_entries (clk 7) s2 = (Inl err, s3) \<longrightarrow>
                          process_event lib clk s event0 = (False, s3))
                    \<and> (numeric_store s \<and> numeric_ts event0 \<longrightarrow>
                          fst (process_event lib clk s event0) = True))))"
proof -
  have pre1: "process_event lib clk s event0 = (False, s)"
    if "with_timestamp_unix lib (clk 0) event0 = Inl err" for err
    using that by (simp add: process_event_def process_event_body_def)
  have pre2: "process_event lib clk s event0 = (False, s)"
    if "with_timestamp_unix lib (clk 0) event0 = Inr event"
      and "map_of event ''user_id'' = None" for event
    using that by (simp add: process_event_def process_event_body_def)
  have main: "history s1 user_id \<noteq> [] \<and> last (history s1 user_id) = event
              \<and> (\<forall>err. calculate_features lib (clk 2, clk 3, clk 4) s1 user_id = Inl err \<longrightarrow>
                     process_event lib clk s event0 = (False, s1))
              \<and> (\<forall>features s2.
                    calculate_features lib (clk 2, clk 3, clk 4) s1 user_id = Inr features
                    \<and> s2 = update_user_features (clk 5) s1 user_id features \<longrightarrow>
                    (\<not> should_cleanup (clk 6) s2 \<longrightarrow>
                       process_event lib clk s event0 = (True, s2))
                    \<and> (\<forall>cleared s3. should_cleanup (clk 6) s2
                          \<and> clear_old_entries (clk 7) s2 = (Inr cleared, s3) \<longrightarrow>
                          process_event lib clk s event0 = (True, s3))
                    \<and> (\<forall>err s3. should_cleanup (clk 6) s2
                          \<and> clear_old_entries (clk 7) s2 = (Inl err, s3) \<longrightarrow>
                          process_event lib clk s event0 = (False, s3))
                    \<and> (numeric_store s \<and> numeric_ts event0 \<longrightarrow>
                          fst (process_event lib clk s event0) = True))"
    if w: "with_timestamp_unix lib (clk 0) event0 = Inr event"
      and u: "map_of event ''user_id'' = Some user_id"
      and s1: "s1 = update_user_events (clk 1) s user_id event" for event user_id s1
  proof -
    have fail: "process_event lib clk s event0 = (False, s1)"
      if "calculate_features lib (clk 2, clk 3, clk 4) s1 user_id = Inl err" for err
      using that w u s1 by (simp add: process_event_def process_event_body_def)
    have ok1: "process_event lib clk s event0 = (True, s2)"
      if "calculate_features lib (clk 2, clk 3, clk 4) s1 user_id = Inr features"
        and "s2 = update_user_features (clk 5) s1 user_id features"
        and "\<not> should_cleanup (clk 6) s2" for features s2
      using that w u s1 by (simp add: process_event_def process_event_body_def)
    have ok2: "process_event lib clk s event0 = (True, s3)"
      if "calculate_features lib (clk 2, clk 3, clk 4) s1 user_id = Inr features"
        and "s2 = update_user_features (clk 5) s1 user_id features"
        and "should_cleanup (clk 6) s2"
        and "clear_old_entries (clk 7) s2 = (Inr cleared, s3)" for features s2 cleared s3
      using that w u s1 by (simp add: process_event_def process_event_body_def)
    have bad: "process_event lib clk s event0 = (False, s3)"
      if "calculate_features lib (clk 2, clk 3, clk 4) s1 user_id = Inr features"
        and "s2 = update_user_features (clk 5) s1 user_id features"
        and "should_cleanup (clk 6) s2"
        and "clear_old_entries (clk 7) s2 = (Inl err, s3)" for features s2 err s3
      using that w u s1 by (simp add: process_event_def process_event_body_def)
    have ok3: "fst (process_event lib clk s event0) = True"
      if c: "calculate_features lib (clk 2, clk 3, clk 4) s1 user_id = Inr features"
        and s2: "s2 = update_user_features (clk 5) s1 user_id features"
        and ns: "numeric_store s" and ne: "numeric_ts event0" for features s2
    proof (cases "should_cleanup (clk 6) s2")
      case False
      from ok1[OF c s2 False] show ?thesis by simp
    next
      case True
      from with_timestamp_unix_numeric[OF ne w] have "numeric_ts event" .
      from numeric_store_update_user_events[OF ns this] have "numeric_store s1"
        by (simp add: s1)
      then have "numeric_store s2"
        unfolding s2 by (rule numeric_store_update_user_features)
      from clear_old_entries_numeric[OF this, of "clk 7"]
      obtain cleared s3 where "clear_old_entries (clk 7) s2 = (Inr cleared, s3)" by blast
      from ok2[OF c s2 True this] show ?thesis by simp
    qed
    from history_after_append[of "clk 1" s user_id event]
    have h: "history s1 user_id \<noteq> []" "last (history s1 user_id) = event"
      by (simp_all add: s1)
    have A: "\<forall>err. calculate_features lib (clk 2, clk 3, clk 4) s1 user_id = Inl err \<longrightarrow>
              process_event lib clk s event0 = (False, s1)"
      using fail by blast
    have C: "\<forall>features s2.
                    calculate_features lib (clk 2, clk 3, clk 4) s1 user_id = Inr features
                    \<and> s2 = update_user_features (clk 5) s1 user_id features \<longrightarrow>
                    (\<not> should_cleanup (clk 6) s2 \<longrightarrow>
                       process_event lib clk s event0 = (True, s2))
                    \<and> (\<forall>cleared s3. should_cleanup (clk 6) s2
                          \<and> clear_old_entries (clk 7) s2 = (Inr cleared, s3) \<longrightarrow>
                          process_event lib clk s event0 = (True, s3))
                    \<and> (\<forall>err s3. should_cleanup (clk 6) s2
                          \<and> clear_old_entries (clk 7) s2 = (Inl err, s3) \<longrightarrow>
                          process_event lib clk s event0 = (False, s3))
                    \<and> (numeric_store s \<and> numeric_ts event0 \<longrightarrow>
                          fst (process_event lib clk s event0) = True)"
    proof (intro allI impI, elim conjE)
      fix features s2
      assume c: "calculate_features lib (clk 2, clk 3, clk 4) s1 user_id = Inr features"
        and s2: "s2 = update_user_features (clk 5) s1 user_id features"
      have c1: "\<not> should_cleanup (clk 6) s2 \<longrightarrow> process_event lib clk s event0 = (True, s2)"
        using ok1[OF c s2] by blast
      have c2: "\<forall>cleared s3. should_cleanup (clk 6) s2
                  \<and> clear_old_entries (clk 7) s2 = (Inr cleared, s3) \<longrightarrow>
                  process_event lib clk s event0 = (True, s3)"
        using ok2[OF c s2] by blast
      have c4: "\<forall>err s3. should_cleanup (clk 6) s2
                  \<and> clear_old_entries (clk 7) s2 = (Inl err, s3) \<longrightarrow>
                  process_event lib clk s event0 = (False, s3)"
        using bad[OF c s2] by blast
      have c3: "numeric_store s \<and> numeric_ts event0 \<longrightarrow>
                  fst (process_event lib clk s event0) = True"
        using ok3[OF c s2] by blast
      from c1 c2 c4 c3
      show "(\<not> should_cleanup (clk 6) s2 \<longrightarrow> process_event lib clk s event0 = (True, s2))
                    \<and> (\<forall>cleared s3. should_cleanup (clk 6) s2
                          \<and> clear_old_entries (clk 7) s2 = (Inr cleared, s3) \<longrightarrow>
                          process_event lib clk s event0 = (True, s3))
                    \<and> (\<forall>err s3. should_cleanup (clk 6) s2
                          \<and> clear_old_entries (clk 7) s2 = (Inl err, s3) \<longrightarrow>
                          process_event lib clk s event0 = (False, s3))
                    \<and> (numeric_store s \<and> numeric_ts event0 \<longrightarrow>
                          fst (process_event lib clk s event0) = True)"
        by (intro conjI)
    qed
    from h A C show ?thesis by (intro conjI)
  qed
  have P1: "\<forall>err. with_timestamp_unix lib (clk 0) event0 = Inl err \<longrightarrow>
       process_event lib clk s event0 = (False, s)"
    using pre1 by blast
  show ?thesis
  proof (intro conjI P1 allI impI)
    fix event
    assume w: "with_timestamp_unix lib (clk 0) event0 = Inr event"
    {
      assume "map_of event ''user_id'' = None"
      from pre2[OF w this] show "process_event lib clk s event0 = (False, s)" .
    }
    {
      fix user_id s1
      assume "map_of event ''user_id'' = Some user_id
              \<and> s1 = update_user_events (clk 1) s user_id event"
      then have u: "map_of event ''user_id'' = Some user_id"
        and s1: "s1 = update_user_events (clk 1) s user_id event" by simp_all
      note m = main[OF w u s1]
      from m show "history s1 user_id \<noteq> []" by (rule conjunct1)
      from m show "last (history s1 user_id) = event" by (rule conjunct2[THEN conjunct1])
      {
        fix err
        assume "calculate_features lib (clk 2, clk 3, clk 4) s1 user_id = Inl err"
        with m show "process_event lib clk s event0 = (False, s1)" by blast
      }
      {
        fix features s2
        assume a: "calculate_features lib (clk 2, clk 3, clk 4) s1 user_id = Inr features
                    \<and> s2 = update_user_features (clk 5) s1 user_id features"
        from m a have r: "(\<not> should_cleanup (clk 6) s2 \<longrightarrow>
                       process_event lib clk s event0 = (True, s2))
                    \<and> (\<forall>cleared s3. should_cleanup (clk 6) s2
                          \<and> clear_old_entries (clk 7) s2 = (Inr cleared, s3) \<longrightarrow>
                          process_event lib clk s event0 = (True, s3))
                    \<and> (\<forall>err s3. should_cleanup (clk 6) s2
                          \<and> clear_old_entries (clk 7) s2 = (Inl err, s3) \<longrightarrow>
                          process_event lib clk s event0 = (False, s3))
                    \<and> (numeric_store s \<and> numeric_ts event0 \<longrightarrow>
                          fst (process_event lib clk s event0) = True)"
          by blast
        {
          assume "\<not> should_cleanup (clk 6) s2"
          with r show "process_event lib clk s event0 = (True, s2)" by blast
        }
        {
          fix cleared s3
          assume "should_cleanup (clk 6) s2
                          \<and> clear_old_entries (clk 7) s2 = (Inr cleared, s3)"
          with r show "process_event lib clk s event0 = (True, s3)" by blast
        }
        {
          fix err s3
          assume "should_cleanup (clk 6) s2
                          \<and> clear_old_entries (clk 7) s2 = (Inl err, s3)"
          with r show "process_event lib clk s event0 = (False, s3)" by blast
        }
        {
          assume "numeric_store s \<and> numeric_ts event0"
          with r show "fst (process_event lib clk s event0) = True" by blast
        }
      }
    }
  qed
qed

theorem process_event_result_witness:
  "process_event example_lib example_clock (StateStore 1700000000 60 300) far_event =
     (False,
      \<lparr>max_window_minutes = 60, cleanup_interval = 300, last_cleanup = 1700000000,
       store = [(PStr ''u'', \<lparr>recent_events = [far_event], feature_vector = [],
                   last_updated = 1700000001, created_at = 1700000001\<rparr>)]\<rparr>)
   \<and> fst (process_event example_lib example_clock (StateStore 1700000000 60 300) iso_event) = True
   \<and> process_event example_lib example_clock (StateStore 1700000000 60 300) bytes_event =
       (False, StateStore 1700000000 60 300)
   \<and> process_event example_lib example_clock (StateStore 1700000000 60 300)
         [(''amount'', PNum 10)] = (False, StateStore 1700000000 60 300)"
proof -
  let ?s = "StateStore 1700000000 60 300 :: pyval state_store"
  let ?s1 = "update_user_events (example_clock 1) ?s (PStr ''u'') far_event"
  note spec1 = process_event_result[where lib = example_lib and clk = example_clock
      and s = ?s and ?event0.0 = far_event]
  have a1: "with_timestamp_unix example_lib (example_clock 0) far_event = Inr far_event"
    by (simp add: with_timestamp_unix_def far_event_def)
  have a2: "map_of far_event ''user_id'' = Some (PStr ''u'')"
    by (simp add: far_event_def)
  from spec1 a1 a2 far_event_fails
  have "process_event example_lib example_clock ?s far_event = (False, ?s1)"
    by blast
  moreover have "?s1 =
      \<lparr>max_window_minutes = 60, cleanup_interval = 300, last_cleanup = 1700000000,
       store = [(PStr ''u'', \<lparr>recent_events = [far_event], feature_vector = [],
                   last_updated = 1700000001, created_at = 1700000001\<rparr>)]\<rparr>"
    by (simp add: StateStore_def update_user_events_def get_user_state_def UserState_def
        deque_append_def maxlen_def example_clock_def)
  ultimately have fail: "process_event example_lib example_clock ?s far_event =
     (False,
      \<lparr>max_window_minutes = 60, cleanup_interval = 300, last_cleanup = 1700000000,
       store = [(PStr ''u'', \<lparr>recent_events = [far_event], feature_vector = [],
                   last_updated = 1700000001, created_at = 1700000001\<rparr>)]\<rparr>)"
    by simp
  let ?e = "AList.update ''timestamp_unix'' (PNum 1704067200) iso_event"
  note spec2 = process_event_result[where lib = example_lib and clk = example_clock
      and s = ?s and ?event0.0 = iso_event]
  have b1: "with_timestamp_unix example_lib (example_clock 0) iso_event = Inr ?e"
    by (simp add: with_timestamp_unix_def iso_event_def example_lib_def replace_Z_def)
  have b2: "map_of ?e ''user_id'' = Some (PStr ''u'')"
    by (simp add: iso_event_def)
  have b3: "numeric_store ?s"
    by (simp add: numeric_store_def StateStore_def)
  have b4: "numeric_ts iso_event"
    by (simp add: numeric_ts_def event_ts_def dict_get_def iso_event_def)
  from spec2 b1 b2 b3 b4 iso_event_features
  have ok: "fst (process_event example_lib example_clock ?s iso_event) = True"
    by blast
  note spec3 = process_event_result[where lib = example_lib and clk = example_clock
      and s = ?s and ?event0.0 = bytes_event]
  have c1: "with_timestamp_unix example_lib (example_clock 0) bytes_event = Inl TypeError"
    by (simp add: with_timestamp_unix_def bytes_event_def)
  from spec3 c1 have pre1: "process_event example_lib example_clock ?s bytes_event = (False, ?s)"
    by blast
  note spec4 = process_event_result[where lib = example_lib and clk = example_clock
      and s = ?s and ?event0.0 = "[(''amount'', PNum 10)]"]
  have d1: "with_timestamp_unix example_lib (example_clock 0) [(''amount'', PNum 10)]
              = Inr [(''amount'', PNum 10)]"
    by (simp add: with_timestamp_unix_def)
  have d2: "map_of [(''amount'', PNum 10)] ''user_id'' = None"
    by simp
  from spec4 d1 d2
  have pre2: "process_event example_lib example_clock ?s [(''amount'', PNum 10)] = (False, ?s)"
    by blast
  from fail ok pre1 pre2 show ?thesis by (intro conjI)
qed

text \<open>
  The claim as written fails where the cleanup raises. A new store is given an event
  whose \<^verbatim>\<open>timestamp_unix\<close> is a string: the feature computation fails and the event
  stays stored. A thousand seconds later an event of another user is processed: its
  features are computed, no exception is raised in the computation, but the cleanup is
  due and raises TypeError on the stored string, and the result is False.
\<close>

theorem process_event_result_counterexample:
  "process_event example_lib example_clock (StateStore 1700000000 60 300) bad_event
     = (False, poisoned_store)
   \<and> calculate_features example_lib (late_clock 2, late_clock 3, late_clock 4)
       (update_user_events (late_clock 1) poisoned_store (PStr ''u'')
          (AList.update ''timestamp_unix'' (PNum 1704067200) iso_event))
       (PStr ''u'') =
     Inr [(''transaction_velocity_1h'', 1), (''amount_zscore'', 0), (''amount_volatility'', 0),
          (''location_anomaly'', 0), (''location_consistency'', 1), (''time_pattern_score'', 0),
          (''merchant_diversity'', 0), (''payment_method_consistency'', 1)]
   \<and> fst (process_event example_lib late_clock poisoned_store iso_event) = False"
  using bad_event_run poisoned_features poisoned_run by (intro conjI)

section \<open>C8: parsing a timestamp\<close>




end
